theory Spec2Isabelle
  imports Main "HOL-Library.Monad_Syntax"
begin

section \<open>The Instagram downloader: exceptions, data and the outside world\<close>

text \<open>
  The module \<^verbatim>\<open>src/modules/downloader.py\<close> holds one class, \<^verbatim>\<open>Downloader\<close>, with a
  constructor, the decorator \<^verbatim>\<open>exceptions_handler\<close> and the two decorated methods
  \<^verbatim>\<open>login\<close> and \<^verbatim>\<open>get_post_content\<close>. Everything the class talks to (the instagrapi
  client, the file system, the clock, the vault, the logger) is outside the module; it is
  a parameter of the model, and every interaction with it is appended to a trace.
\<close>

subsection \<open>Exceptions\<close>

text \<open>
  An exception value is represented by the class an \<^verbatim>\<open>except\<close> clause of the module tests
  for. \<open>OtherError\<close> stands for every exception of the libraries that no clause names.
\<close>

datatype exn =
    LoginRequired
  | ChallengeRequired
  | PleaseWaitFewMinutes
  | ReadTimeoutError
  | RequestsConnectionError
  | ClientRequestTimeout
  | MediaNotFound
  | MediaUnavailable
  | WrongVaultInstance
  | FailedCreateDownloaderInstance
  | FailedAuthInstagram
  | FailedDownloadPost
  | KeyError string
  | ValueError
  | TypeError
  | OSError
  | OtherError string

subsection \<open>Values\<close>

datatype cfgval = CNone | CBool bool | CInt int | CStr string

text \<open>The configuration is a \<^verbatim>\<open>dict\<close> from setting names to values.\<close>

type_synonym configuration = "(string \<times> cfgval) list"

definition getitem :: "configuration \<Rightarrow> string \<Rightarrow> exn + cfgval" where
  "getitem d k = (case map_of d k of None \<Rightarrow> Inl (KeyError k) | Some v \<Rightarrow> Inr v)"

definition get_or_none :: "configuration \<Rightarrow> string \<Rightarrow> cfgval" where
  "get_or_none d k = (case map_of d k of None \<Rightarrow> CNone | Some v \<Rightarrow> v)"

fun truthy :: "cfgval \<Rightarrow> bool" where
  "truthy CNone = False"
| "truthy (CBool b) = b"
| "truthy (CInt n) = (n \<noteq> 0)"
| "truthy (CStr s) = (s \<noteq> [])"

text \<open>
  \<^verbatim>\<open>int(v)\<close>: the parser of \<^verbatim>\<open>int\<close> on a string is the interpreter's and is a parameter.
\<close>

fun py_int :: "(string \<Rightarrow> int option) \<Rightarrow> cfgval \<Rightarrow> exn + int" where
  "py_int p CNone = Inl TypeError"
| "py_int p (CBool b) = Inr (if b then 1 else 0)"
| "py_int p (CInt n) = Inr n"
| "py_int p (CStr s) = (case p s of None \<Rightarrow> Inl ValueError | Some n \<Rightarrow> Inr n)"

text \<open>
  The client's settings: the \<^verbatim>\<open>"uuids"\<close> entry (\<open>None\<close> when the key is absent) and the
  rest of the session state.
\<close>

type_synonym uuid_fields = "(string \<times> string) list"

record settings =
  uuids :: "uuid_fields option"
  other :: "(string \<times> string) list"

definition empty_settings :: settings where
  "empty_settings = \<lparr>uuids = None, other = []\<rparr>"

definition getitem_uuids :: "settings \<Rightarrow> exn + uuid_fields" where
  "getitem_uuids st = (case uuids st of None \<Rightarrow> Inl (KeyError ''uuids'') | Some u \<Rightarrow> Inr u)"

record login_args =
  username :: cfgval
  password :: cfgval
  verification_code :: "string option"

text \<open>
  The mapping \<^verbatim>\<open>media_info(...).dict()\<close>, with the three entries the module reads.
  \<open>product_type\<close> is read both with \<^verbatim>\<open>.get\<close> and with \<^verbatim>\<open>[...]\<close>: \<open>None\<close> is an absent
  key, \<open>Some None\<close> the value \<^verbatim>\<open>None\<close>, \<open>Some (Some s)\<close> a string.
\<close>

record media_info =
  media_type :: int
  product_type :: "string option option"
  user_username :: string

definition get_product_type :: "media_info \<Rightarrow> string option" where
  "get_product_type mi = (case product_type mi of None \<Rightarrow> None | Some v \<Rightarrow> v)"

definition getitem_product_type :: "media_info \<Rightarrow> exn + string option" where
  "getitem_product_type mi =
     (case product_type mi of None \<Rightarrow> Inl (KeyError ''product_type'') | Some v \<Rightarrow> Inr v)"

datatype strategy =
  photo_download | video_download | clip_download | igtv_download | album_download

record response =
  post :: string
  owner :: string
  typename :: string
  status :: string

subsection \<open>The trace of interactions\<close>

datatype level = INFO | WARNING | ERROR

datatype logarg =
  AStr string | AInt int | ACfg cfgval | ASettings settings | AMedia media_info | AExn exn

datatype event =
    Log level string "logarg list"
  | Sleep nat
  | ReadSecret string
  | NewClient
  | SetDelayRange int int
  | SetRequestTimeout int
  | SetLocale cfgval
  | SetCountryCode int
  | SetTimezoneOffset int
  | SetUserAgent cfgval
  | SetProxy cfgval
  | GetSettings
  | SetSettings settings
  | SetUuids uuid_fields
  | LoadSettings cfgval
  | DumpSettings cfgval
  | TotpGenerateCode cfgval
  | ClientLogin login_args
  | GetTimelineFeed
  | PathExists cfgval
  | GetCtime cfgval
  | MakeDirs string
  | ListDir string
  | MediaPkFromCode string
  | MediaInfo string
  | Download strategy string string

subsection \<open>The outside world\<close>

text \<open>
  \<open>'w\<close> is the state of everything outside the module. A method of the client takes the
  world and gives back a value or an exception, and the new world; a getter only reads it.
  A function of \<^verbatim>\<open>os\<close> gives \<open>None\<close> when it raises: what it raises is an error of the
  operating system, never one of the client's exceptions.
\<close>

record 'w env =
  parse_int :: "string \<Rightarrow> int option"
  sleep :: "nat \<Rightarrow> 'w \<Rightarrow> 'w"
  new_client :: "'w \<Rightarrow> (exn + unit) \<times> 'w"
  assign_delay_range :: "int \<Rightarrow> int \<Rightarrow> 'w \<Rightarrow> 'w"
  assign_request_timeout :: "int \<Rightarrow> 'w \<Rightarrow> 'w"
  set_locale :: "cfgval \<Rightarrow> 'w \<Rightarrow> (exn + unit) \<times> 'w"
  set_country_code :: "int \<Rightarrow> 'w \<Rightarrow> (exn + unit) \<times> 'w"
  set_timezone_offset :: "int \<Rightarrow> 'w \<Rightarrow> (exn + unit) \<times> 'w"
  set_user_agent :: "cfgval \<Rightarrow> 'w \<Rightarrow> (exn + unit) \<times> 'w"
  set_proxy :: "cfgval \<Rightarrow> 'w \<Rightarrow> (exn + unit) \<times> 'w"
  get_settings :: "'w \<Rightarrow> settings"
  set_settings :: "settings \<Rightarrow> 'w \<Rightarrow> (exn + unit) \<times> 'w"
  set_uuids :: "uuid_fields \<Rightarrow> 'w \<Rightarrow> (exn + unit) \<times> 'w"
  load_settings :: "cfgval \<Rightarrow> 'w \<Rightarrow> (exn + unit) \<times> 'w"
  dump_settings :: "cfgval \<Rightarrow> 'w \<Rightarrow> (exn + unit) \<times> 'w"
  totp_generate_code :: "cfgval \<Rightarrow> 'w \<Rightarrow> exn + string"
  client_login :: "login_args \<Rightarrow> 'w \<Rightarrow> (exn + unit) \<times> 'w"
  get_timeline_feed :: "'w \<Rightarrow> (exn + unit) \<times> 'w"
  path_exists :: "cfgval \<Rightarrow> 'w \<Rightarrow> bool option"
  getctime :: "cfgval \<Rightarrow> 'w \<Rightarrow> string option"
  makedirs :: "string \<Rightarrow> 'w \<Rightarrow> unit option \<times> 'w"
  listdir :: "string \<Rightarrow> 'w \<Rightarrow> string list option"
  media_pk_from_code :: "string \<Rightarrow> 'w \<Rightarrow> (exn + string) \<times> 'w"
  fetch_media_info :: "string \<Rightarrow> 'w \<Rightarrow> (exn + media_info) \<times> 'w"
  run_download :: "strategy \<Rightarrow> string \<Rightarrow> string \<Rightarrow> 'w \<Rightarrow> (exn + unit) \<times> 'w"

text \<open>\<^verbatim>\<open>vault.kv2engine.read_secret(path=...)\<close> of the vault object given to the constructor.\<close>

type_synonym 'w vault = "string \<Rightarrow> 'w \<Rightarrow> (exn + configuration) \<times> 'w"

record 'w state =
  trace :: "event list"
  world :: 'w

subsection \<open>Sequencing with exceptions\<close>

type_synonym ('a, 'w) action = "'w state \<Rightarrow> (exn + 'a) \<times> 'w state"

definition returns :: "'a \<Rightarrow> ('a, 'w) action" where
  "returns a s = (Inr a, s)"

definition raises :: "exn \<Rightarrow> ('a, 'w) action" where
  "raises e s = (Inl e, s)"

definition evaluated :: "exn + 'a \<Rightarrow> ('a, 'w) action" where
  "evaluated r s = (r, s)"

definition and_then :: "('a, 'w) action \<Rightarrow> ('a \<Rightarrow> ('b, 'w) action) \<Rightarrow> ('b, 'w) action" where
  "and_then m f s = (case m s of (Inl e, s') \<Rightarrow> (Inl e, s') | (Inr a, s') \<Rightarrow> f a s')"

text \<open>
  \<^verbatim>\<open>try: m except ...: h\<close>. The handler gives \<open>None\<close> for an exception that no clause
  matches, which then propagates.
\<close>

definition try_except ::
  "('a, 'w) action \<Rightarrow> (exn \<Rightarrow> ('a, 'w) action option) \<Rightarrow> ('a, 'w) action" where
  "try_except m h s =
     (case m s of
        (Inr a, s') \<Rightarrow> (Inr a, s')
      | (Inl e, s') \<Rightarrow> (case h e of None \<Rightarrow> (Inl e, s') | Some k \<Rightarrow> k s'))"

definition emit :: "event \<Rightarrow> 'w state \<Rightarrow> 'w state" where
  "emit ev s = s\<lparr>trace := trace s @ [ev]\<rparr>"

definition log :: "level \<Rightarrow> string \<Rightarrow> logarg list \<Rightarrow> (unit, 'w) action" where
  "log lv msg as s = (Inr (), emit (Log lv msg as) s)"

text \<open>A call that may change the world, a call that only reads it, and one that cannot raise.\<close>

definition call :: "event \<Rightarrow> ('w \<Rightarrow> (exn + 'a) \<times> 'w) \<Rightarrow> ('a, 'w) action" where
  "call ev f s = (case f (world s) of (r, w') \<Rightarrow> (r, (emit ev s)\<lparr>world := w'\<rparr>))"

definition observe :: "event \<Rightarrow> ('w \<Rightarrow> exn + 'a) \<Rightarrow> ('a, 'w) action" where
  "observe ev f s = (f (world s), emit ev s)"

definition os_result :: "'a option \<Rightarrow> exn + 'a" where
  "os_result r = (case r of None \<Rightarrow> Inl OSError | Some v \<Rightarrow> Inr v)"

definition os_call :: "event \<Rightarrow> ('w \<Rightarrow> 'a option \<times> 'w) \<Rightarrow> ('a, 'w) action" where
  "os_call ev f = call ev (\<lambda>w. case f w of (r, w') \<Rightarrow> (os_result r, w'))"

definition os_observe :: "event \<Rightarrow> ('w \<Rightarrow> 'a option) \<Rightarrow> ('a, 'w) action" where
  "os_observe ev f = observe ev (\<lambda>w. os_result (f w))"

text \<open>\<^verbatim>\<open>time.sleep(n)\<close>: the world moves on by \<open>n\<close> seconds.\<close>

definition time_sleep :: "'w env \<Rightarrow> nat \<Rightarrow> 'w state \<Rightarrow> 'w state" where
  "time_sleep env n s = (emit (Sleep n) s)\<lparr>world := sleep env n (world s)\<rparr>"

definition effect :: "event \<Rightarrow> ('w \<Rightarrow> 'w) \<Rightarrow> (unit, 'w) action" where
  "effect ev f s = (Inr (), (emit ev s)\<lparr>world := f (world s)\<rparr>)"

section \<open>The decorator \<^verbatim>\<open>exceptions_handler\<close>\<close>

text \<open>
  Line 137, \<^verbatim>\<open>return method(self, *args, **kwargs)\<close>, is reached when the \<^verbatim>\<open>except\<close>
  clause that ran has returned; an exception raised inside the clause leaves the wrapper.
\<close>

definition retry_after ::
  "('a \<Rightarrow> ('r, 'w) action) \<Rightarrow> 'a \<Rightarrow> (exn + 'b) \<times> 'w state \<Rightarrow> ((exn + 'r) \<times> 'w state) option" where
  "retry_after method args rs =
     (case rs of (Inl e, s) \<Rightarrow> Some (Inl e, s) | (Inr _, s) \<Rightarrow> Some (method args s))"

text \<open>
  \<open>self_login\<close> is \<^verbatim>\<open>self.login\<close>, the decorated method. It may not return (it calls
  itself through its own wrapper), so its result is an option: \<open>None\<close> is a call that
  never returns.
\<close>

definition exceptions_handler ::
  "'w env \<Rightarrow> (string \<Rightarrow> 'w state \<Rightarrow> ((exn + string) \<times> 'w state) option) \<Rightarrow>
   ('a \<Rightarrow> ('r, 'w) action) \<Rightarrow> 'a \<Rightarrow> 'w state \<Rightarrow> ((exn + 'r) \<times> 'w state) option" where
  "exceptions_handler env self_login method args s =
     (case method args s of
        (Inr v, s1) \<Rightarrow> Some (Inr v, s1)
      | (Inl e, s1) \<Rightarrow>
          if e = LoginRequired then
            Option.bind
              (self_login ''relogin''
                (emit (Log ERROR ''[Downloader]: Instagram API login required. Re-authentication...'' []) s1))
              (retry_after method args)
          else if e = ChallengeRequired then
            Option.bind
              (self_login ''session''
                (time_sleep env 3600
                  (emit (Log ERROR ''[Downloader]: Instagram API requires challenge. Need manually pass in browser. Retry after 1 hour'' []) s1)))
              (retry_after method args)
          else if e = PleaseWaitFewMinutes then
            Option.bind
              (self_login ''relogin''
                (time_sleep env 3600
                  (emit (Log ERROR ''[Downloader]: Device or IP address has been restricted. Just wait a one hour and try again'' []) s1)))
              (retry_after method args)
          else if e \<in> {ReadTimeoutError, RequestsConnectionError, ClientRequestTimeout} then
            Some (method args
              (time_sleep env 60
                (emit (Log ERROR ''[Downloader]: Timeout error downloading post content. Retry after 1 minute'' []) s1)))
          else Some (Inl e, s1))"

lemma exceptions_handler_mono [partial_function_mono]:
  assumes "\<And>m t. mono_option (\<lambda>f. L f m t)"
  shows "mono_option (\<lambda>f. exceptions_handler env (L f) method args s)"
proof -
  obtain r s1 where m: "method args s = (r, s1)"
    by (cases "method args s")
  show ?thesis
    unfolding exceptions_handler_def m prod.case
    by (cases r) (auto intro!: partial_function_mono assms)
qed

section \<open>\<^verbatim>\<open>login\<close>\<close>

text \<open>Lines 159 to 171: the arguments of \<^verbatim>\<open>client.login\<close>.\<close>

definition make_login_args :: "configuration \<Rightarrow> 'w env \<Rightarrow> (login_args, 'w) action" where
  "make_login_args cfg env =
     and_then (evaluated (getitem cfg ''2fa-enabled'')) (\<lambda>enabled.
       if truthy enabled then
         and_then (evaluated (getitem cfg ''2fa-seed'')) (\<lambda>seed.
         and_then (observe (TotpGenerateCode seed) (totp_generate_code env seed)) (\<lambda>totp_code.
         and_then (log INFO ''[Downloader]: Two-factor authentication is enabled. TOTP code: %s'' [AStr totp_code]) (\<lambda>_.
         and_then (evaluated (getitem cfg ''username'')) (\<lambda>u.
         and_then (evaluated (getitem cfg ''password'')) (\<lambda>p.
         returns \<lparr>username = u, password = p, verification_code = Some totp_code\<rparr>)))))
       else
         and_then (evaluated (getitem cfg ''username'')) (\<lambda>u.
         and_then (evaluated (getitem cfg ''password'')) (\<lambda>p.
         returns \<lparr>username = u, password = p, verification_code = None\<rparr>)))"

text \<open>Line 174: \<^verbatim>\<open>method == 'session' and os.path.exists(...)\<close>, evaluated left to right.\<close>

definition session_file_usable :: "configuration \<Rightarrow> 'w env \<Rightarrow> string \<Rightarrow> (bool, 'w) action" where
  "session_file_usable cfg env method =
     (if method = ''session'' then
        and_then (evaluated (getitem cfg ''session-file'')) (\<lambda>f.
        os_observe (PathExists f) (path_exists env f))
      else returns False)"

definition dump_session :: "configuration \<Rightarrow> 'w env \<Rightarrow> (unit, 'w) action" where
  "dump_session cfg env =
     and_then (evaluated (getitem cfg ''session-file'')) (\<lambda>f.
     call (DumpSettings f) (dump_settings env f))"

text \<open>The body of \<^verbatim>\<open>login\<close>, lines 156 to 195.\<close>

definition login_body :: "configuration \<Rightarrow> 'w env \<Rightarrow> string \<Rightarrow> (string, 'w) action" where
  "login_body cfg env method =
     and_then (log INFO ''[Downloader]: Authentication in the Instagram API with type: %s'' [AStr method]) (\<lambda>_.
     and_then (make_login_args cfg env) (\<lambda>args.
     and_then (session_file_usable cfg env method) (\<lambda>usable.
     and_then
       (if usable then
          and_then (evaluated (getitem cfg ''session-file'')) (\<lambda>f.
          and_then (os_observe (GetCtime f) (getctime env f)) (\<lambda>created.
          and_then (log INFO ''[Downloader]: Loading session file with creation date %s'' [AStr created]) (\<lambda>_.
          and_then (evaluated (getitem cfg ''session-file'')) (\<lambda>f'.
          and_then (call (LoadSettings f') (load_settings env f')) (\<lambda>_.
          call (ClientLogin args) (client_login env args))))))
        else if method = ''relogin'' then
          and_then (log INFO ''[Downloader]: Relogin to the Instagram API...'' []) (\<lambda>_.
          and_then (observe GetSettings (\<lambda>w. Inr (get_settings env w))) (\<lambda>old_session.
          and_then (call (SetSettings empty_settings) (set_settings env empty_settings)) (\<lambda>_.
          and_then (evaluated (getitem_uuids old_session)) (\<lambda>u.
          and_then (call (SetUuids u) (set_uuids env u)) (\<lambda>_.
          and_then (call (ClientLogin args) (client_login env args)) (\<lambda>_.
          dump_session cfg env))))))
        else
          and_then (log INFO ''[Downloader]: Creating a new session file...'' []) (\<lambda>_.
          and_then (call (ClientLogin args) (client_login env args)) (\<lambda>_.
          dump_session cfg env)))
       (\<lambda>_.
     and_then (log INFO ''[Downloader]: Checking the status of the authentication...'' []) (\<lambda>_.
     and_then (call GetTimelineFeed (get_timeline_feed env)) (\<lambda>_.
     and_then (log INFO ''[Downloader]: Authentication in the Instagram API was successful.'' []) (\<lambda>_.
     returns ''logged_in'')))))))"

text \<open>\<^verbatim>\<open>@exceptions_handler def login\<close>: the method as every caller sees it.\<close>

partial_function (option) login ::
  "configuration \<Rightarrow> 'w env \<Rightarrow> string \<Rightarrow> 'w state \<Rightarrow> ((exn + string) \<times> 'w state) option" where
  "login cfg env method s =
     exceptions_handler env (login cfg env) (login_body cfg env) method s"

declare login.simps [code]

section \<open>\<^verbatim>\<open>get_post_content\<close>\<close>

text \<open>Lines 104 to 110: the table \<^verbatim>\<open>self.download_methods\<close>.\<close>

definition download_methods :: "int \<times> string option \<Rightarrow> strategy option" where
  "download_methods =
     map_of [((1, Some ''any''), photo_download),
             ((2, Some ''feed''), video_download),
             ((2, Some ''clips''), clip_download),
             ((2, Some ''igtv''), igtv_download),
             ((8, Some ''any''), album_download)]"

text \<open>Line 224: the key of the lookup.\<close>

definition dispatch_key :: "media_info \<Rightarrow> int \<times> string option" where
  "dispatch_key mi =
     (media_type mi, if media_type mi \<in> {1, 8} then Some ''any'' else get_product_type mi)"

text \<open>\<^verbatim>\<open>status if status else fallback\<close>, with \<^verbatim>\<open>None\<close> and the empty string false.\<close>

definition status_or :: "string option \<Rightarrow> string \<Rightarrow> string" where
  "status_or st fallback = (case st of None \<Rightarrow> fallback | Some v \<Rightarrow> if v \<noteq> [] then v else fallback)"

text \<open>The dict literals of lines 240 to 245 and 248 to 253, which differ in the fallback.\<close>

definition build_response ::
  "string \<Rightarrow> media_info \<Rightarrow> string option \<Rightarrow> string \<Rightarrow> (response, 'w) action" where
  "build_response shortcode mi st fallback =
     and_then (evaluated (getitem_product_type mi)) (\<lambda>pt.
     returns \<lparr>post = shortcode,
              owner = user_username mi,
              typename = (case pt of None \<Rightarrow> ''photo'' | Some t \<Rightarrow> if t \<noteq> [] then t else ''photo''),
              status = status_or st fallback\<rparr>)"

definition not_found_response :: "string \<Rightarrow> response" where
  "not_found_response shortcode =
     \<lparr>post = shortcode, owner = ''undefined'', typename = ''undefined'',
      status = ''source_not_found''\<rparr>"

text \<open>Lines 220 to 253: the block guarded by \<^verbatim>\<open>try\<close>.\<close>

definition fetch_block :: "'w env \<Rightarrow> string \<Rightarrow> (response, 'w) action" where
  "fetch_block env shortcode =
     and_then (call (MediaPkFromCode shortcode) (media_pk_from_code env shortcode)) (\<lambda>media_pk.
     and_then (call (MediaInfo media_pk) (fetch_media_info env media_pk)) (\<lambda>mi.
     let download_method = download_methods (dispatch_key mi);
         path = ''data/'' @ user_username mi
     in
     and_then (os_call (MakeDirs path) (makedirs env path)) (\<lambda>_.
     and_then
       (case download_method of
          Some m \<Rightarrow>
            and_then (call (Download m media_pk path) (run_download env m media_pk path)) (\<lambda>_.
            returns (Some ''completed''))
        | None \<Rightarrow>
            and_then (log ERROR ''[Downloader]: The media type is not supported for download: %s'' [AMedia mi]) (\<lambda>_.
            returns (Some ''not_supported'')))
       (\<lambda>st.
     and_then (os_observe (ListDir path) (listdir env path)) (\<lambda>names.
     if names \<noteq> [] then
       and_then (log INFO ''[Downloader]: The contents of the post %s have been successfully downloaded'' [AStr shortcode]) (\<lambda>_.
       build_response shortcode mi st ''completed'')
     else
       and_then (log ERROR ''[Downloader]: Temporary directory is empty: %s'' [AStr path]) (\<lambda>_.
       build_response shortcode mi st ''failed''))))))"

text \<open>The body of \<^verbatim>\<open>get_post_content\<close>, lines 214 to 264.\<close>

definition get_post_content_body :: "'w env \<Rightarrow> string \<times> int \<Rightarrow> (response, 'w) action" where
  "get_post_content_body env args =
     (case args of (shortcode, error_count) \<Rightarrow>
        if error_count > 3 then
          and_then (log ERROR ''[Downloader]: The number of errors exceeded the limit: %s'' [AInt error_count]) (\<lambda>_.
          raises FailedDownloadPost)
        else
          and_then (log INFO ''[Downloader]: Downloading the contents of the post %s...'' [AStr shortcode]) (\<lambda>_.
          try_except (fetch_block env shortcode)
            (\<lambda>error.
               if error \<in> {MediaUnavailable, MediaNotFound} then
                 Some (and_then
                   (log WARNING ''[Downloader]: Post %s not found, perhaps it was deleted. Message will be marked as processed: %s'' [AStr shortcode, AExn error]) (\<lambda>_.
                   returns (not_found_response shortcode)))
               else None)))"

text \<open>\<^verbatim>\<open>@exceptions_handler def get_post_content\<close>.\<close>

definition get_post_content ::
  "configuration \<Rightarrow> 'w env \<Rightarrow> string \<times> int \<Rightarrow> 'w state \<Rightarrow> ((exn + response) \<times> 'w state) option" where
  "get_post_content cfg env args s =
     exceptions_handler env (login cfg env) (get_post_content_body env) args s"

section \<open>The constructor\<close>

text \<open>Lines 72 to 83. A dict is true when it is not empty.\<close>

definition choose_configuration ::
  "configuration option \<Rightarrow> 'w vault option \<Rightarrow> (configuration, 'w) action" where
  "choose_configuration configuration vault =
     (case vault of
        None \<Rightarrow> raises WrongVaultInstance
      | Some read_secret \<Rightarrow>
          (case configuration of
             Some c \<Rightarrow>
               if c \<noteq> [] then returns c
               else if \<not> c \<noteq> [] then
                 call (ReadSecret ''configuration/downloader-api'') (read_secret ''configuration/downloader-api'')
               else raises FailedCreateDownloaderInstance
           | None \<Rightarrow> call (ReadSecret ''configuration/downloader-api'') (read_secret ''configuration/downloader-api'')))"

text \<open>Lines 85 to 96.\<close>

definition configure_client :: "'w env \<Rightarrow> configuration \<Rightarrow> (unit, 'w) action" where
  "configure_client env cfg =
     and_then (log INFO ''[Downloader]: Creating a new instance...'' []) (\<lambda>_.
     and_then (call NewClient (new_client env)) (\<lambda>_.
     and_then (log INFO ''[Downloader]: Configuring client settings...'' []) (\<lambda>_.
     and_then (evaluated (getitem cfg ''delay-requests'')) (\<lambda>v.
     and_then (evaluated (py_int (parse_int env) v)) (\<lambda>d.
     and_then (effect (SetDelayRange 1 d) (assign_delay_range env 1 d)) (\<lambda>_.
     and_then (evaluated (getitem cfg ''request-timeout'')) (\<lambda>v.
     and_then (evaluated (py_int (parse_int env) v)) (\<lambda>t.
     and_then (effect (SetRequestTimeout t) (assign_request_timeout env t)) (\<lambda>_.
     and_then (evaluated (getitem cfg ''locale'')) (\<lambda>l.
     and_then (call (SetLocale l) (set_locale env l)) (\<lambda>_.
     and_then (evaluated (getitem cfg ''country-code'')) (\<lambda>v.
     and_then (evaluated (py_int (parse_int env) v)) (\<lambda>c.
     and_then (call (SetCountryCode c) (set_country_code env c)) (\<lambda>_.
     and_then (evaluated (getitem cfg ''timezone-offset'')) (\<lambda>v.
     and_then (evaluated (py_int (parse_int env) v)) (\<lambda>z.
     and_then (call (SetTimezoneOffset z) (set_timezone_offset env z)) (\<lambda>_.
     and_then (evaluated (getitem cfg ''user-agent'')) (\<lambda>a.
     and_then (call (SetUserAgent a) (set_user_agent env a)) (\<lambda>_.
     and_then (call (SetProxy (get_or_none cfg ''proxy-dsn'')) (set_proxy env (get_or_none cfg ''proxy-dsn''))) (\<lambda>_.
     and_then (observe GetSettings (\<lambda>w. Inr (get_settings env w))) (\<lambda>st.
     log INFO ''[Downloader]: Client settings: %s'' [ASettings st])))))))))))))))))))))"

text \<open>Lines 98 to 110: what follows \<^verbatim>\<open>auth_status = self.login()\<close>.\<close>

definition check_auth_status ::
  "configuration \<Rightarrow> (exn + string) \<times> 'w state \<Rightarrow> ((exn + configuration) \<times> 'w state) option" where
  "check_auth_status cfg rs =
     (case rs of
        (Inl e, s) \<Rightarrow> Some (Inl e, s)
      | (Inr auth_status, s) \<Rightarrow>
          if auth_status = ''logged_in'' then
            Some (and_then (evaluated (getitem cfg ''username'')) (\<lambda>u.
                  and_then (log INFO ''[Downloader]: Instance created successfully with account %s'' [ACfg u]) (\<lambda>_.
                  returns cfg)) s)
          else Some (Inl FailedAuthInstagram, s))"

text \<open>
  \<^verbatim>\<open>Downloader.__init__\<close>: lines 72 to 96, then the login and its check. The instance is
  its configuration: the client lives in the world and the table of download methods is
  the constant above.
\<close>

definition prepare ::
  "'w env \<Rightarrow> configuration option \<Rightarrow> 'w vault option \<Rightarrow> (configuration, 'w) action" where
  "prepare env configuration vault =
     and_then (choose_configuration configuration vault) (\<lambda>cfg.
     and_then (configure_client env cfg) (\<lambda>_.
     returns cfg))"

definition Downloader_init ::
  "'w env \<Rightarrow> configuration option \<Rightarrow> 'w vault option \<Rightarrow> 'w state \<Rightarrow>
   ((exn + configuration) \<times> 'w state) option" where
  "Downloader_init env configuration vault s =
     (case prepare env configuration vault s of
        (Inl e, s1) \<Rightarrow> Some (Inl e, s1)
      | (Inr cfg, s1) \<Rightarrow> Option.bind (login cfg env ''session'' s1) (check_auth_status cfg))"

section \<open>A scripted outside world for the examples\<close>

text \<open>
  A test double of the client and the file system. Each call that goes to the remote
  service takes the next entry of the script: \<open>Some e\<close> makes the call raise \<open>e\<close>,
  \<open>None\<close> (or an exhausted script) lets it succeed. The client keeps its settings, the
  session file keeps what was dumped last, and a directory keeps the names written to it.
  A successful login gives the session the provider hands out for the account, here
  always the same one.
\<close>

record stub_world =
  script :: "exn option list"
  current :: settings
  session_file :: "settings option"
  dirs :: "(string \<times> string list) list"

definition remote :: "'a \<Rightarrow> stub_world \<Rightarrow> (exn + 'a) \<times> stub_world" where
  "remote v w =
     (case script w of
        [] \<Rightarrow> (Inr v, w)
      | None # rest \<Rightarrow> (Inr v, w\<lparr>script := rest\<rparr>)
      | Some e # rest \<Rightarrow> (Inl e, w\<lparr>script := rest\<rparr>))"

definition stub_login :: "login_args \<Rightarrow> stub_world \<Rightarrow> (exn + unit) \<times> stub_world" where
  "stub_login args w =
     (case remote () w of
        (Inl e, w') \<Rightarrow> (Inl e, w')
      | (Inr _, w') \<Rightarrow>
          (Inr (), w'\<lparr>current := (current w')\<lparr>other := [(''sessionid'', ''granted'')]\<rparr>\<rparr>))"

definition stub_load :: "cfgval \<Rightarrow> stub_world \<Rightarrow> (exn + unit) \<times> stub_world" where
  "stub_load f w =
     (case session_file w of
        None \<Rightarrow> (Inl (OtherError ''no session file''), w)
      | Some st \<Rightarrow> (Inr (), w\<lparr>current := st\<rparr>))"

definition stub_makedirs :: "string \<Rightarrow> stub_world \<Rightarrow> unit option \<times> stub_world" where
  "stub_makedirs p w =
     (case map_of (dirs w) p of
        None \<Rightarrow> (Some (), w\<lparr>dirs := (p, []) # dirs w\<rparr>)
      | Some _ \<Rightarrow> (Some (), w))"

definition stub_download ::
  "string list \<Rightarrow> strategy \<Rightarrow> string \<Rightarrow> string \<Rightarrow> stub_world \<Rightarrow> (exn + unit) \<times> stub_world" where
  "stub_download produced m media_pk folder w =
     (case remote () w of
        (Inl e, w') \<Rightarrow> (Inl e, w')
      | (Inr _, w') \<Rightarrow>
          (Inr (), w'\<lparr>dirs := (folder, (case map_of (dirs w') folder of None \<Rightarrow> [] | Some ns \<Rightarrow> ns) @ produced) # dirs w'\<rparr>))"

definition stub_env :: "media_info \<Rightarrow> string list \<Rightarrow> stub_world env" where
  "stub_env mi produced =
     \<lparr>parse_int = (\<lambda>_. None),
      sleep = (\<lambda>_ w. w),
      new_client = (\<lambda>w. (Inr (), w)),
      assign_delay_range = (\<lambda>_ _ w. w),
      assign_request_timeout = (\<lambda>_ w. w),
      set_locale = (\<lambda>_ w. (Inr (), w)),
      set_country_code = (\<lambda>_ w. (Inr (), w)),
      set_timezone_offset = (\<lambda>_ w. (Inr (), w)),
      set_user_agent = (\<lambda>_ w. (Inr (), w)),
      set_proxy = (\<lambda>_ w. (Inr (), w)),
      get_settings = current,
      set_settings = (\<lambda>st w. (Inr (), w\<lparr>current := st\<rparr>)),
      set_uuids = (\<lambda>u w. (Inr (), w\<lparr>current := (current w)\<lparr>uuids := Some u\<rparr>\<rparr>)),
      load_settings = stub_load,
      dump_settings = (\<lambda>_ w. (Inr (), w\<lparr>session_file := Some (current w)\<rparr>)),
      totp_generate_code = (\<lambda>_ _. Inr ''000000''),
      client_login = stub_login,
      get_timeline_feed = remote (),
      path_exists = (\<lambda>_ w. Some (session_file w \<noteq> None)),
      getctime = (\<lambda>_ _. Some ''Thu Jan  1 00:00:00 1970''),
      makedirs = stub_makedirs,
      listdir = (\<lambda>p w. map_of (dirs w) p),
      media_pk_from_code = (\<lambda>code. remote (''pk-'' @ code)),
      fetch_media_info = (\<lambda>_. remote mi),
      run_download = stub_download produced\<rparr>"

definition stub_cfg :: configuration where
  "stub_cfg =
     [(''username'', CStr ''alice''), (''password'', CStr ''secret''),
      (''session-file'', CStr ''data/session.json''), (''delay-requests'', CInt 1),
      (''2fa-enabled'', CBool False), (''2fa-seed'', CStr ''seed''),
      (''locale'', CStr ''en_US''), (''country-code'', CInt 1),
      (''timezone-offset'', CInt 10800), (''user-agent'', CStr ''Mozilla/5.0''),
      (''request-timeout'', CInt 10)]"

definition stub_session :: settings where
  "stub_session = \<lparr>uuids = Some [(''phone_id'', ''p-1'')], other = [(''sessionid'', ''granted'')]\<rparr>"

definition stub_initial :: "exn option list \<Rightarrow> stub_world" where
  "stub_initial sc =
     \<lparr>script = sc, current = stub_session, session_file = Some stub_session, dirs = []\<rparr>"

definition stub_start :: "exn option list \<Rightarrow> stub_world state" where
  "stub_start sc = \<lparr>trace = [], world = stub_initial sc\<rparr>"

definition image_post :: media_info where
  "image_post = \<lparr>media_type = 1, product_type = Some (Some []), user_username = ''bob''\<rparr>"

definition story_post :: media_info where
  "story_post = \<lparr>media_type = 2, product_type = Some (Some ''story''), user_username = ''bob''\<rparr>"

definition stub_vault :: "stub_world vault" where
  "stub_vault path w = (Inr [], w)"

abbreviation demo_env :: "stub_world env" where
  "demo_env \<equiv> stub_env image_post [''a.jpg'']"

text \<open>The state the constructor reaches before it calls \<^verbatim>\<open>login\<close>, started on the stub.\<close>

definition prepared :: "exn option list \<Rightarrow> stub_world state" where
  "prepared sc =
     \<lparr>trace =
        [Log INFO ''[Downloader]: Creating a new instance...'' [], NewClient,
         Log INFO ''[Downloader]: Configuring client settings...'' [],
         SetDelayRange 1 1, SetRequestTimeout 10, SetLocale (CStr ''en_US''), SetCountryCode 1,
         SetTimezoneOffset 10800, SetUserAgent (CStr ''Mozilla/5.0''), SetProxy CNone, GetSettings,
         Log INFO ''[Downloader]: Client settings: %s'' [ASettings stub_session]],
      world = stub_initial sc\<rparr>"

text \<open>
  The state in which the first invocation of \<^verbatim>\<open>get_post_content('ABC123')\<close> ends when the
  resolution of the identifier raises.
\<close>

definition after_failure :: "stub_world state" where
  "after_failure =
     \<lparr>trace = [Log INFO ''[Downloader]: Downloading the contents of the post %s...'' [AStr ''ABC123''],
               MediaPkFromCode ''ABC123''],
      world = stub_initial []\<rparr>"

text \<open>The events of a kind in a trace.\<close>

fun is_download :: "event \<Rightarrow> bool" where
  "is_download (Download _ _ _) = True"
| "is_download _ = False"

fun is_resolution :: "event \<Rightarrow> bool" where
  "is_resolution (MediaPkFromCode _) = True"
| "is_resolution _ = False"

fun is_client_login :: "event \<Rightarrow> bool" where
  "is_client_login (ClientLogin _) = True"
| "is_client_login _ = False"

fun is_sleep :: "event \<Rightarrow> bool" where
  "is_sleep (Sleep _) = True"
| "is_sleep _ = False"

lemmas sequencing_defs =
  returns_def raises_def evaluated_def and_then_def try_except_def emit_def log_def call_def
  observe_def effect_def time_sleep_def os_result_def os_call_def os_observe_def retry_after_def

lemmas stub_defs =
  stub_env_def stub_cfg_def stub_session_def stub_initial_def stub_start_def remote_def stub_login_def stub_load_def
  stub_makedirs_def stub_download_def image_post_def story_post_def
  stub_vault_def after_failure_def

section \<open>Facts about the decorator\<close>

lemma handler_returns:
  "method args s = (Inr v, s1) \<Longrightarrow> exceptions_handler env L method args s = Some (Inr v, s1)"
  by (simp add: exceptions_handler_def)

lemma handler_unclassified:
  "method args s = (Inl e, s1) \<Longrightarrow>
   e \<notin> {LoginRequired, ChallengeRequired, PleaseWaitFewMinutes, ReadTimeoutError,
         RequestsConnectionError, ClientRequestTimeout} \<Longrightarrow>
   exceptions_handler env L method args s = Some (Inl e, s1)"
  by (simp add: exceptions_handler_def)

lemma retry_after_value:
  "retry_after method args rs = Some (Inr v, s') \<Longrightarrow> \<exists>s0. method args s0 = (Inr v, s')"
  by (cases rs; cases "fst rs") (auto simp: retry_after_def)

text \<open>A value that the wrapper returns is the value of an invocation of the method.\<close>

lemma handler_value_from_method:
  assumes "exceptions_handler env L method args s = Some (Inr v, s')"
  shows "\<exists>s0. method args s0 = (Inr v, s')"
proof -
  obtain r s1 where m: "method args s = (r, s1)"
    by (cases "method args s")
  show ?thesis
  proof (cases r)
    case (Inr a)
    with m assms show ?thesis
      by (auto simp: exceptions_handler_def)
  next
    case (Inl e)
    with m assms show ?thesis
      by (auto simp: exceptions_handler_def bind_eq_Some_conv
               split: if_splits dest: retry_after_value)
  qed
qed

lemma and_then_value:
  "and_then m f s = (Inr v, s') \<Longrightarrow> \<exists>a s1. m s = (Inr a, s1) \<and> f a s1 = (Inr v, s')"
  by (auto simp: and_then_def split: prod.splits sum.splits)

lemma outcome_of: "map_option fst x = Some r \<Longrightarrow> \<exists>s'. x = Some (r, s')"
  by (cases x) auto

lemma prepare_stub:
  "prepare demo_env (Some stub_cfg) (Some stub_vault) (stub_start sc) = (Inr stub_cfg, prepared sc)"
  by (simp add: prepare_def choose_configuration_def configure_client_def sequencing_defs
        stub_defs getitem_def get_or_none_def prepared_def)

lemma with_snd: "fst p = a \<Longrightarrow> p = (a, snd p)"
  by (simp add: prod_eq_iff)

lemma body_fails_on_stub:
  "e \<notin> {MediaUnavailable, MediaNotFound} \<Longrightarrow>
   get_post_content_body demo_env (''ABC123'', 0) (stub_start [Some e]) = (Inl e, after_failure)"
  by (simp add: get_post_content_body_def fetch_block_def sequencing_defs stub_defs)

lemma handler_timeout:
  "method args s = (Inl e, s1) \<Longrightarrow>
   e \<in> {ReadTimeoutError, RequestsConnectionError, ClientRequestTimeout} \<Longrightarrow>
   exceptions_handler env L method args s =
     Some (method args
       (time_sleep env 60
         (emit (Log ERROR ''[Downloader]: Timeout error downloading post content. Retry after 1 minute'' []) s1)))"
  by (auto simp: exceptions_handler_def)

lemma handler_reauth:
  "method args s = (Inl e, s1) \<Longrightarrow>
   e \<in> {LoginRequired, ChallengeRequired, PleaseWaitFewMinutes} \<Longrightarrow>
   exceptions_handler env L method args s =
     Option.bind
       (L (if e = ChallengeRequired then ''session'' else ''relogin'')
          (if e = LoginRequired then
             emit (Log ERROR ''[Downloader]: Instagram API login required. Re-authentication...'' []) s1
           else if e = ChallengeRequired then
             time_sleep env 3600
               (emit (Log ERROR ''[Downloader]: Instagram API requires challenge. Need manually pass in browser. Retry after 1 hour'' []) s1)
           else
             time_sleep env 3600
               (emit (Log ERROR ''[Downloader]: Device or IP address has been restricted. Just wait a one hour and try again'' []) s1)))
       (retry_after method args)"
  by (auto simp: exceptions_handler_def)

lemma bind_retry_after:
  "(L mode t = None \<longrightarrow> Option.bind (L mode t) (retry_after method args) = None) \<and>
   (\<forall>e' s2. L mode t = Some (Inl e', s2) \<longrightarrow>
      Option.bind (L mode t) (retry_after method args) = Some (Inl e', s2)) \<and>
   (\<forall>x s2. L mode t = Some (Inr x, s2) \<longrightarrow>
      Option.bind (L mode t) (retry_after method args) = Some (method args s2))"
  by (auto simp: retry_after_def)

lemma body_fails_then:
  "e \<notin> {MediaUnavailable, MediaNotFound} \<Longrightarrow>
   get_post_content_body demo_env (''ABC123'', 0) (stub_start (Some e # rest)) =
     (Inl e, after_failure\<lparr>world := stub_initial rest\<rparr>)"
  by (simp add: get_post_content_body_def fetch_block_def sequencing_defs stub_defs)

section \<open>The error budget\<close>

text \<open>
  C5. A call of \<^verbatim>\<open>get_post_content\<close> with \<^verbatim>\<open>error_count > 3\<close> raises
  \<^verbatim>\<open>FailedDownloadPost\<close>. The only interaction is the line written to the log: the world
  is the one the call started in, so no identifier was resolved, no metadata fetched and
  nothing downloaded, and the wrapper does not retry.
\<close>

theorem budget_exhausted_raises_before_resolution:
  assumes "error_count > 3"
  shows "get_post_content cfg env (shortcode, error_count) s =
           Some (Inl FailedDownloadPost,
                 s\<lparr>trace := trace s @
                   [Log ERROR ''[Downloader]: The number of errors exceeded the limit: %s''
                      [AInt error_count]]\<rparr>)"
  using assms
  by (simp add: get_post_content_def exceptions_handler_def get_post_content_body_def
        sequencing_defs)

theorem budget_exhausted_witness:
  "(4::int) > 3 \<and>
   get_post_content stub_cfg (stub_env image_post [''a.jpg'']) (''ABC123'', 4) (stub_start []) =
     Some (Inl FailedDownloadPost,
           (stub_start [])\<lparr>trace :=
              [Log ERROR ''[Downloader]: The number of errors exceeded the limit: %s'' [AInt 4]]\<rparr>)"
  using budget_exhausted_raises_before_resolution
    [of 4 stub_cfg "stub_env image_post [''a.jpg'']" "''ABC123''" "stub_start []"]
  by (simp add: stub_start_def)

section \<open>The check of the owner directory\<close>

text \<open>
  C1. The claim: a strategy that ran and left the owner directory empty gives the status
  \<^verbatim>\<open>failed\<close>. The code at that input: the post is a single image, \<^verbatim>\<open>photo_download\<close> is
  called and writes nothing, the listing of \<^verbatim>\<open>data/bob\<close> is empty, and the outcome has the
  status \<^verbatim>\<open>completed\<close>. The variable \<^verbatim>\<open>status\<close> is set on both branches of the dispatch,
  so the fallback \<^verbatim>\<open>'failed'\<close> of line 252 is never taken.
\<close>

theorem empty_directory_reported_completed:
  "map_option
     (\<lambda>(r, s'). (r, filter is_download (trace s'),
                  listdir (stub_env image_post []) ''data/bob'' (world s')))
     (get_post_content stub_cfg (stub_env image_post []) (''ABC123'', 0) (stub_start [])) =
   Some (Inr \<lparr>post = ''ABC123'', owner = ''bob'', typename = ''photo'', status = ''completed''\<rparr>,
         [Download photo_download ''pk-ABC123'' ''data/bob''], Some [])"
  by code_simp

section \<open>A source that is gone\<close>

text \<open>
  C4. When the resolution of the identifier raises \<^verbatim>\<open>MediaUnavailable\<close> or
  \<^verbatim>\<open>MediaNotFound\<close>, in \<^verbatim>\<open>media_pk_from_code\<close> or in \<^verbatim>\<open>media_info\<close>, the call of
  \<^verbatim>\<open>get_post_content\<close> returns the outcome with the identifier, the owner and type
  \<^verbatim>\<open>undefined\<close> and the status \<^verbatim>\<open>source_not_found\<close>; it does not raise, whatever the client,
  the file system and the state are. The resolution is attempted when the error budget is
  not exhausted.
\<close>

theorem unavailable_source_short_circuits:
  assumes "error_count \<le> 3"
    and "e \<in> {MediaUnavailable, MediaNotFound}"
    and "(\<exists>w1. media_pk_from_code env shortcode (world s) = (Inl e, w1)) \<or>
         (\<exists>pk w1 w2. media_pk_from_code env shortcode (world s) = (Inr pk, w1) \<and>
                      fetch_media_info env pk w1 = (Inl e, w2))"
  shows "\<exists>s'. get_post_content cfg env (shortcode, error_count) s =
           Some (Inr \<lparr>post = shortcode, owner = ''undefined'', typename = ''undefined'',
                      status = ''source_not_found''\<rparr>, s')"
  using assms
  by (auto simp: get_post_content_def exceptions_handler_def get_post_content_body_def
        fetch_block_def not_found_response_def sequencing_defs)

theorem unavailable_source_witness:
  "(0::int) \<le> 3 \<and> MediaNotFound \<in> {MediaUnavailable, MediaNotFound} \<and>
   media_pk_from_code (stub_env image_post [''a.jpg'']) ''ABC123''
     (world (stub_start [None, Some MediaNotFound])) = (Inr ''pk-ABC123'', stub_initial [Some MediaNotFound]) \<and>
   fetch_media_info (stub_env image_post [''a.jpg'']) ''pk-ABC123'' (stub_initial [Some MediaNotFound]) =
     (Inl MediaNotFound, stub_initial []) \<and>
   (\<exists>s'. get_post_content stub_cfg (stub_env image_post [''a.jpg'']) (''ABC123'', 0)
            (stub_start [None, Some MediaNotFound]) =
          Some (Inr \<lparr>post = ''ABC123'', owner = ''undefined'', typename = ''undefined'',
                     status = ''source_not_found''\<rparr>, s'))"
proof -
  have h1: "media_pk_from_code (stub_env image_post [''a.jpg'']) ''ABC123''
     (world (stub_start [None, Some MediaNotFound])) = (Inr ''pk-ABC123'', stub_initial [Some MediaNotFound])"
    by (simp add: stub_defs)
  have h2: "fetch_media_info (stub_env image_post [''a.jpg'']) ''pk-ABC123'' (stub_initial [Some MediaNotFound]) =
     (Inl MediaNotFound, stub_initial [])"
    by (simp add: stub_defs)
  from h1 h2 have h: "(\<exists>w1. media_pk_from_code (stub_env image_post [''a.jpg'']) ''ABC123''
           (world (stub_start [None, Some MediaNotFound])) = (Inl MediaNotFound, w1)) \<or>
         (\<exists>pk w1 w2. media_pk_from_code (stub_env image_post [''a.jpg'']) ''ABC123''
           (world (stub_start [None, Some MediaNotFound])) = (Inr pk, w1) \<and>
                      fetch_media_info (stub_env image_post [''a.jpg'']) pk w1 = (Inl MediaNotFound, w2))"
    by blast
  have "(0::int) \<le> 3" and "MediaNotFound \<in> {MediaUnavailable, MediaNotFound}"
    by simp_all
  from unavailable_source_short_circuits [OF this h, of stub_cfg] h1 h2
  show ?thesis by simp
qed

section \<open>The dispatch\<close>






section \<open>The type of the outcome\<close>

lemma body_descriptor:
  assumes "get_post_content_body env (shortcode, error_count) s = (Inr resp, s')"
    and "status resp \<noteq> ''source_not_found''"
  shows "\<exists>pk w1 mi w2 v.
           media_pk_from_code env shortcode (world s) = (Inr pk, w1) \<and>
           fetch_media_info env pk w1 = (Inr mi, w2) \<and>
           product_type mi = Some v \<and>
           typename resp = (case v of None \<Rightarrow> ''photo'' | Some t \<Rightarrow> if t = [] then ''photo'' else t)"
  using assms
  by (auto simp: get_post_content_body_def fetch_block_def build_response_def status_or_def
        getitem_product_type_def not_found_response_def sequencing_defs Let_def
        split: option.split_asm prod.split_asm sum.split_asm if_split_asm)

text \<open>
  C9. An outcome that \<^verbatim>\<open>get_post_content\<close> returns outside the short circuit comes
  from an invocation of the body whose descriptor has the entry \<^verbatim>\<open>product_type\<close>; the
  type of the outcome is that entry when it is a string that is not empty, and \<^verbatim>\<open>photo\<close>
  when the descriptor carries no sub-type: the entry is \<^verbatim>\<open>None\<close> or empty. No outcome is
  returned for a mapping without the entry, so no returned outcome has another type.
\<close>

theorem outcome_type_from_descriptor:
  assumes "get_post_content cfg env (shortcode, error_count) s = Some (Inr resp, s')"
    and "status resp \<noteq> ''source_not_found''"
  shows "\<exists>s0 pk w1 mi w2 v.
           get_post_content_body env (shortcode, error_count) s0 = (Inr resp, s') \<and>
           media_pk_from_code env shortcode (world s0) = (Inr pk, w1) \<and>
           fetch_media_info env pk w1 = (Inr mi, w2) \<and>
           product_type mi = Some v \<and>
           typename resp = (case v of None \<Rightarrow> ''photo'' | Some t \<Rightarrow> if t = [] then ''photo'' else t)"
proof -
  from assms(1) obtain s0 where
    body: "get_post_content_body env (shortcode, error_count) s0 = (Inr resp, s')"
    unfolding get_post_content_def by (auto dest: handler_value_from_method)
  from body_descriptor [OF body assms(2)] body show ?thesis
    by blast
qed

theorem outcome_type_witness:
  "\<exists>s'. get_post_content stub_cfg (stub_env image_post [''a.jpg'']) (''ABC123'', 0) (stub_start []) =
          Some (Inr \<lparr>post = ''ABC123'', owner = ''bob'', typename = ''photo'', status = ''completed''\<rparr>, s') \<and>
        status \<lparr>post = ''ABC123'', owner = ''bob'', typename = ''photo'', status = ''completed''\<rparr>
          \<noteq> ''source_not_found'' \<and>
        (\<exists>s0 pk w1 mi w2 v.
           get_post_content_body (stub_env image_post [''a.jpg'']) (''ABC123'', 0) s0 =
             (Inr \<lparr>post = ''ABC123'', owner = ''bob'', typename = ''photo'', status = ''completed''\<rparr>, s') \<and>
           media_pk_from_code (stub_env image_post [''a.jpg'']) ''ABC123'' (world s0) = (Inr pk, w1) \<and>
           fetch_media_info (stub_env image_post [''a.jpg'']) pk w1 = (Inr mi, w2) \<and>
           product_type mi = Some v \<and>
           typename \<lparr>post = ''ABC123'', owner = ''bob'', typename = ''photo'', status = ''completed''\<rparr> =
             (case v of None \<Rightarrow> ''photo'' | Some t \<Rightarrow> if t = [] then ''photo'' else t))"
proof -
  have "map_option fst
          (get_post_content stub_cfg (stub_env image_post [''a.jpg'']) (''ABC123'', 0) (stub_start [])) =
        Some (Inr \<lparr>post = ''ABC123'', owner = ''bob'', typename = ''photo'', status = ''completed''\<rparr>)"
    by code_simp
  then obtain s' where run:
    "get_post_content stub_cfg (stub_env image_post [''a.jpg'']) (''ABC123'', 0) (stub_start []) =
       Some (Inr \<lparr>post = ''ABC123'', owner = ''bob'', typename = ''photo'', status = ''completed''\<rparr>, s')"
    by (cases "get_post_content stub_cfg (stub_env image_post [''a.jpg'']) (''ABC123'', 0) (stub_start [])")
       auto
  have ok: "status \<lparr>post = ''ABC123'', owner = ''bob'', typename = ''photo'', status = ''completed''\<rparr>
          \<noteq> ''source_not_found''"
    by simp
  from outcome_type_from_descriptor [OF run ok] run ok show ?thesis
    by blast
qed

section \<open>The value of \<^verbatim>\<open>login\<close> and the check of the constructor\<close>

lemma make_login_args_username:
  "make_login_args cfg env s = (Inr a, s') \<Longrightarrow> \<exists>u. getitem cfg ''username'' = Inr u"
  by (auto simp: make_login_args_def sequencing_defs split: sum.splits if_splits prod.splits)

lemma login_body_value:
  assumes "login_body cfg env m s = (Inr v, s')"
  shows "v = ''logged_in'' \<and> (\<exists>u. getitem cfg ''username'' = Inr u)"
proof -
  from assms obtain a s1 s2 where "make_login_args cfg env s1 = (Inr a, s2)"
    unfolding login_body_def by (auto dest!: and_then_value)
  then have "\<exists>u. getitem cfg ''username'' = Inr u"
    by (rule make_login_args_username)
  moreover from assms have "v = ''logged_in''"
    unfolding login_body_def by (auto dest!: and_then_value simp: returns_def)
  ultimately show ?thesis by simp
qed

lemma login_value:
  assumes "login cfg env m s = Some (Inr v, s')"
  shows "v = ''logged_in'' \<and> (\<exists>u. getitem cfg ''username'' = Inr u)"
proof -
  from assms have "exceptions_handler env (login cfg env) (login_body cfg env) m s = Some (Inr v, s')"
    by (subst (asm) login.simps)
  then obtain s0 where "login_body cfg env m s0 = (Inr v, s')"
    by (auto dest: handler_value_from_method)
  then show ?thesis by (rule login_body_value)
qed

text \<open>
  C10. A call of \<^verbatim>\<open>login\<close> that returns gives \<^verbatim>\<open>'logged_in'\<close>. In the constructor, once
  the configuration is chosen and the client configured: when \<^verbatim>\<open>login\<close> returns, the
  check passes and the constructor returns the instance after its last log line; when
  \<^verbatim>\<open>login\<close> raises, the constructor raises that exception. The branch that raises
  \<^verbatim>\<open>FailedAuthInstagram\<close> is never taken.
\<close>

theorem login_returns_logged_in:
  "(login cfg env method s = Some (Inr v, s') \<longrightarrow> v = ''logged_in'') \<and>
   (prepare env configuration vault s0 = (Inr cfg, s1) \<longrightarrow>
      (\<forall>v s2. login cfg env ''session'' s1 = Some (Inr v, s2) \<longrightarrow>
         (\<exists>u. Downloader_init env configuration vault s0 =
            Some (Inr cfg, emit (Log INFO ''[Downloader]: Instance created successfully with account %s'' [ACfg u]) s2))) \<and>
      (\<forall>e s2. login cfg env ''session'' s1 = Some (Inl e, s2) \<longrightarrow>
         Downloader_init env configuration vault s0 = Some (Inl e, s2)))"
proof (intro conjI impI allI)
  assume "login cfg env method s = Some (Inr v, s')"
  then show "v = ''logged_in''" by (simp add: login_value)
next
  fix v s2
  assume p: "prepare env configuration vault s0 = (Inr cfg, s1)"
    and l: "login cfg env ''session'' s1 = Some (Inr v, s2)"
  from login_value [OF l] obtain u where "v = ''logged_in''" and "getitem cfg ''username'' = Inr u"
    by blast
  with p l have "Downloader_init env configuration vault s0 =
            Some (Inr cfg, emit (Log INFO ''[Downloader]: Instance created successfully with account %s'' [ACfg u]) s2)"
    by (simp add: Downloader_init_def check_auth_status_def sequencing_defs)
  then show "\<exists>u. Downloader_init env configuration vault s0 =
            Some (Inr cfg, emit (Log INFO ''[Downloader]: Instance created successfully with account %s'' [ACfg u]) s2)"
    by blast
next
  fix e s2
  assume "prepare env configuration vault s0 = (Inr cfg, s1)"
    and "login cfg env ''session'' s1 = Some (Inl e, s2)"
  then show "Downloader_init env configuration vault s0 = Some (Inl e, s2)"
    by (simp add: Downloader_init_def check_auth_status_def)
qed

theorem login_returns_logged_in_witness:
  "(\<exists>v s'. login stub_cfg demo_env ''relogin'' (stub_start []) = Some (Inr v, s') \<and> v = ''logged_in'') \<and>
   (\<exists>v s2 u.
      prepare demo_env (Some stub_cfg) (Some stub_vault) (stub_start []) = (Inr stub_cfg, prepared []) \<and>
      login stub_cfg demo_env ''session'' (prepared []) = Some (Inr v, s2) \<and>
      Downloader_init demo_env (Some stub_cfg) (Some stub_vault) (stub_start []) =
        Some (Inr stub_cfg,
              emit (Log INFO ''[Downloader]: Instance created successfully with account %s'' [ACfg u]) s2)) \<and>
   (\<exists>s2.
      prepare demo_env (Some stub_cfg) (Some stub_vault) (stub_start [Some (OtherError ''bad password'')]) =
        (Inr stub_cfg, prepared [Some (OtherError ''bad password'')]) \<and>
      login stub_cfg demo_env ''session'' (prepared [Some (OtherError ''bad password'')]) =
        Some (Inl (OtherError ''bad password''), s2) \<and>
      Downloader_init demo_env (Some stub_cfg) (Some stub_vault) (stub_start [Some (OtherError ''bad password'')]) =
        Some (Inl (OtherError ''bad password''), s2))"
proof (intro conjI)
  have "map_option fst (login stub_cfg demo_env ''relogin'' (stub_start [])) = Some (Inr ''logged_in'')"
    by code_simp
  then obtain v s' where l: "login stub_cfg demo_env ''relogin'' (stub_start []) = Some (Inr v, s')"
    by (auto dest: outcome_of)
  with login_returns_logged_in [of stub_cfg demo_env "''relogin''" "stub_start []" v s']
  show "\<exists>v s'. login stub_cfg demo_env ''relogin'' (stub_start []) = Some (Inr v, s') \<and> v = ''logged_in''"
    by blast
next
  have "map_option fst (login stub_cfg demo_env ''session'' (prepared [])) = Some (Inr ''logged_in'')"
    by code_simp
  then obtain s2 where l: "login stub_cfg demo_env ''session'' (prepared []) = Some (Inr ''logged_in'', s2)"
    by (auto dest: outcome_of)
  from login_returns_logged_in
         [of stub_cfg demo_env "''session''" "prepared []" "''logged_in''" s2 "Some stub_cfg"
             "Some stub_vault" "stub_start []" "prepared []"]
       prepare_stub [of "[]"] l
  show "\<exists>v s2 u.
      prepare demo_env (Some stub_cfg) (Some stub_vault) (stub_start []) = (Inr stub_cfg, prepared []) \<and>
      login stub_cfg demo_env ''session'' (prepared []) = Some (Inr v, s2) \<and>
      Downloader_init demo_env (Some stub_cfg) (Some stub_vault) (stub_start []) =
        Some (Inr stub_cfg,
              emit (Log INFO ''[Downloader]: Instance created successfully with account %s'' [ACfg u]) s2)"
    by blast
next
  have "map_option fst (login stub_cfg demo_env ''session'' (prepared [Some (OtherError ''bad password'')])) =
        Some (Inl (OtherError ''bad password''))"
    by code_simp
  then obtain s2 where l:
    "login stub_cfg demo_env ''session'' (prepared [Some (OtherError ''bad password'')]) =
       Some (Inl (OtherError ''bad password''), s2)"
    by (auto dest: outcome_of)
  from login_returns_logged_in
         [of stub_cfg demo_env "''session''" "prepared [Some (OtherError ''bad password'')]" "''logged_in''" s2
             "Some stub_cfg" "Some stub_vault" "stub_start [Some (OtherError ''bad password'')]"
             "prepared [Some (OtherError ''bad password'')]"]
       prepare_stub [of "[Some (OtherError ''bad password'')]"] l
  show "\<exists>s2.
      prepare demo_env (Some stub_cfg) (Some stub_vault) (stub_start [Some (OtherError ''bad password'')]) =
        (Inr stub_cfg, prepared [Some (OtherError ''bad password'')]) \<and>
      login stub_cfg demo_env ''session'' (prepared [Some (OtherError ''bad password'')]) =
        Some (Inl (OtherError ''bad password''), s2) \<and>
      Downloader_init demo_env (Some stub_cfg) (Some stub_vault) (stub_start [Some (OtherError ''bad password'')]) =
        Some (Inl (OtherError ''bad password''), s2)"
    by blast
qed

section \<open>The wrapper around \<^verbatim>\<open>login\<close>\<close>

text \<open>
  C8, as amended. \<^verbatim>\<open>login\<close> is decorated with \<^verbatim>\<open>exceptions_handler\<close> like every other
  operation. A body that returns makes \<^verbatim>\<open>login\<close> return; an exception of the body that
  is outside the classification reaches the caller unchanged, in the state the body left,
  with no retry; a timeout of the body is followed by the log line, the wait of one minute
  and one more invocation of the body with the same argument, whose outcome is the outcome
  of \<^verbatim>\<open>login\<close>. After \<^verbatim>\<open>LoginRequired\<close>, \<^verbatim>\<open>ChallengeRequired\<close> or
  \<^verbatim>\<open>PleaseWaitFewMinutes\<close> of the body, \<^verbatim>\<open>login\<close> calls itself (in renew mode at once, in
  session mode after an hour, in renew mode after an hour): when that call returns, the
  body is invoked once more with the original argument in the state it left, and the
  outcome of that invocation is the outcome of \<^verbatim>\<open>login\<close>; when that call raises, its
  exception is the outcome and the body is not invoked again; when it does not return,
  neither does \<^verbatim>\<open>login\<close>.
\<close>

theorem login_is_wrapped:
  "(login_body cfg env method s = (Inr v, s1) \<longrightarrow> login cfg env method s = Some (Inr v, s1)) \<and>
   (login_body cfg env method s = (Inl e, s1) \<and>
    e \<notin> {LoginRequired, ChallengeRequired, PleaseWaitFewMinutes, ReadTimeoutError,
          RequestsConnectionError, ClientRequestTimeout} \<longrightarrow>
      login cfg env method s = Some (Inl e, s1)) \<and>
   (login_body cfg env method s = (Inl e, s1) \<and>
    e \<in> {ReadTimeoutError, RequestsConnectionError, ClientRequestTimeout} \<longrightarrow>
      login cfg env method s =
        Some (login_body cfg env method
               (s1\<lparr>trace := trace s1 @
                    [Log ERROR ''[Downloader]: Timeout error downloading post content. Retry after 1 minute'' [],
                     Sleep 60],
                   world := sleep env 60 (world s1)\<rparr>))) \<and>
   (login_body cfg env method s = (Inl e, s1) \<and>
    e \<in> {LoginRequired, ChallengeRequired, PleaseWaitFewMinutes} \<and>
    mode = (if e = ChallengeRequired then ''session'' else ''relogin'') \<and>
    t = (if e = LoginRequired then
           emit (Log ERROR ''[Downloader]: Instagram API login required. Re-authentication...'' []) s1
         else if e = ChallengeRequired then
           time_sleep env 3600
             (emit (Log ERROR ''[Downloader]: Instagram API requires challenge. Need manually pass in browser. Retry after 1 hour'' []) s1)
         else
           time_sleep env 3600
             (emit (Log ERROR ''[Downloader]: Device or IP address has been restricted. Just wait a one hour and try again'' []) s1)) \<longrightarrow>
      (login cfg env mode t = None \<longrightarrow> login cfg env method s = None) \<and>
      (\<forall>e' s2. login cfg env mode t = Some (Inl e', s2) \<longrightarrow>
         login cfg env method s = Some (Inl e', s2)) \<and>
      (\<forall>x s2. login cfg env mode t = Some (Inr x, s2) \<longrightarrow>
         login cfg env method s = Some (login_body cfg env method s2)))"
proof -
  have unfold: "login cfg env method s =
      exceptions_handler env (login cfg env) (login_body cfg env) method s"
    by (rule login.simps)
  have c1: "login_body cfg env method s = (Inr v, s1) \<longrightarrow> login cfg env method s = Some (Inr v, s1)"
    unfolding unfold by (simp add: handler_returns)
  have c2: "login_body cfg env method s = (Inl e, s1) \<and>
    e \<notin> {LoginRequired, ChallengeRequired, PleaseWaitFewMinutes, ReadTimeoutError,
          RequestsConnectionError, ClientRequestTimeout} \<longrightarrow>
      login cfg env method s = Some (Inl e, s1)"
    unfolding unfold by (simp add: handler_unclassified)
  have c3: "login_body cfg env method s = (Inl e, s1) \<and>
    e \<in> {ReadTimeoutError, RequestsConnectionError, ClientRequestTimeout} \<longrightarrow>
      login cfg env method s =
        Some (login_body cfg env method
               (s1\<lparr>trace := trace s1 @
                    [Log ERROR ''[Downloader]: Timeout error downloading post content. Retry after 1 minute'' [],
                     Sleep 60],
                   world := sleep env 60 (world s1)\<rparr>))"
    unfolding unfold by (auto simp: exceptions_handler_def sequencing_defs)
  have c4: "login_body cfg env method s = (Inl e, s1) \<and>
    e \<in> {LoginRequired, ChallengeRequired, PleaseWaitFewMinutes} \<and>
    mode = (if e = ChallengeRequired then ''session'' else ''relogin'') \<and>
    t = (if e = LoginRequired then
           emit (Log ERROR ''[Downloader]: Instagram API login required. Re-authentication...'' []) s1
         else if e = ChallengeRequired then
           time_sleep env 3600
             (emit (Log ERROR ''[Downloader]: Instagram API requires challenge. Need manually pass in browser. Retry after 1 hour'' []) s1)
         else
           time_sleep env 3600
             (emit (Log ERROR ''[Downloader]: Device or IP address has been restricted. Just wait a one hour and try again'' []) s1)) \<longrightarrow>
      (login cfg env mode t = None \<longrightarrow> login cfg env method s = None) \<and>
      (\<forall>e' s2. login cfg env mode t = Some (Inl e', s2) \<longrightarrow>
         login cfg env method s = Some (Inl e', s2)) \<and>
      (\<forall>x s2. login cfg env mode t = Some (Inr x, s2) \<longrightarrow>
         login cfg env method s = Some (login_body cfg env method s2))"
  proof
    assume h: "login_body cfg env method s = (Inl e, s1) \<and>
      e \<in> {LoginRequired, ChallengeRequired, PleaseWaitFewMinutes} \<and>
      mode = (if e = ChallengeRequired then ''session'' else ''relogin'') \<and>
      t = (if e = LoginRequired then
             emit (Log ERROR ''[Downloader]: Instagram API login required. Re-authentication...'' []) s1
           else if e = ChallengeRequired then
             time_sleep env 3600
               (emit (Log ERROR ''[Downloader]: Instagram API requires challenge. Need manually pass in browser. Retry after 1 hour'' []) s1)
           else
             time_sleep env 3600
               (emit (Log ERROR ''[Downloader]: Device or IP address has been restricted. Just wait a one hour and try again'' []) s1))"
    then have "exceptions_handler env (login cfg env) (login_body cfg env) method s =
        Option.bind (login cfg env mode t) (retry_after (login_body cfg env) method)"
      using handler_reauth [of "login_body cfg env" "method" s e s1 env "login cfg env"] by simp
    then have "login cfg env method s =
        Option.bind (login cfg env mode t) (retry_after (login_body cfg env) method)"
      by (simp only: unfold)
    with bind_retry_after [of "login cfg env" mode t "login_body cfg env" "method"]
    show "(login cfg env mode t = None \<longrightarrow> login cfg env method s = None) \<and>
      (\<forall>e' s2. login cfg env mode t = Some (Inl e', s2) \<longrightarrow>
         login cfg env method s = Some (Inl e', s2)) \<and>
      (\<forall>x s2. login cfg env mode t = Some (Inr x, s2) \<longrightarrow>
         login cfg env method s = Some (login_body cfg env method s2))"
      by simp
  qed
  show ?thesis
    by (rule conjI [OF c1 conjI [OF c2 conjI [OF c3 c4]]])
qed

theorem login_is_wrapped_witness:
  "(login_body stub_cfg demo_env ''session'' (stub_start []) =
     (Inr ''logged_in'', snd (login_body stub_cfg demo_env ''session'' (stub_start []))) \<and>
   login stub_cfg demo_env ''session'' (stub_start []) =
     Some (Inr ''logged_in'', snd (login_body stub_cfg demo_env ''session'' (stub_start []))) \<and>
   login_body stub_cfg demo_env ''session'' (stub_start [Some (OtherError ''bad password'')]) =
     (Inl (OtherError ''bad password''),
      snd (login_body stub_cfg demo_env ''session'' (stub_start [Some (OtherError ''bad password'')]))) \<and>
   login stub_cfg demo_env ''session'' (stub_start [Some (OtherError ''bad password'')]) =
     Some (Inl (OtherError ''bad password''),
           snd (login_body stub_cfg demo_env ''session'' (stub_start [Some (OtherError ''bad password'')]))) \<and>
   login_body stub_cfg demo_env ''session'' (stub_start [Some ReadTimeoutError]) =
     (Inl ReadTimeoutError, snd (login_body stub_cfg demo_env ''session'' (stub_start [Some ReadTimeoutError]))) \<and>
   login stub_cfg demo_env ''session'' (stub_start [Some ReadTimeoutError]) =
     Some (login_body stub_cfg demo_env ''session''
       ((snd (login_body stub_cfg demo_env ''session'' (stub_start [Some ReadTimeoutError])))
          \<lparr>trace := trace (snd (login_body stub_cfg demo_env ''session'' (stub_start [Some ReadTimeoutError]))) @
             [Log ERROR ''[Downloader]: Timeout error downloading post content. Retry after 1 minute'' [],
              Sleep 60],
           world := sleep demo_env 60
             (world (snd (login_body stub_cfg demo_env ''session'' (stub_start [Some ReadTimeoutError]))))\<rparr>))) \<and>
   (\<exists>s1 x s2.
      login_body stub_cfg demo_env ''session'' (stub_start [Some LoginRequired]) = (Inl LoginRequired, s1) \<and>
      login stub_cfg demo_env ''relogin'' (emit (Log ERROR ''[Downloader]: Instagram API login required. Re-authentication...'' []) s1) = Some (Inr x, s2) \<and>
      login stub_cfg demo_env ''session'' (stub_start [Some LoginRequired]) =
        Some (login_body stub_cfg demo_env ''session'' s2)) \<and>
   (\<exists>s1 s2.
      login_body stub_cfg demo_env ''session'' (stub_start [Some LoginRequired, Some (OtherError ''bad password'')]) =
        (Inl LoginRequired, s1) \<and>
      login stub_cfg demo_env ''relogin'' (emit (Log ERROR ''[Downloader]: Instagram API login required. Re-authentication...'' []) s1) =
        Some (Inl (OtherError ''bad password''), s2) \<and>
      login stub_cfg demo_env ''session'' (stub_start [Some LoginRequired, Some (OtherError ''bad password'')]) =
        Some (Inl (OtherError ''bad password''), s2))"
proof -
  have "fst (login_body stub_cfg demo_env ''session'' (stub_start [])) = Inr ''logged_in''"
    by code_simp
  then have a: "login_body stub_cfg demo_env ''session'' (stub_start []) =
     (Inr ''logged_in'', snd (login_body stub_cfg demo_env ''session'' (stub_start [])))"
    by (rule with_snd)
  have "fst (login_body stub_cfg demo_env ''session'' (stub_start [Some (OtherError ''bad password'')])) =
          Inl (OtherError ''bad password'')"
    by code_simp
  then have b: "login_body stub_cfg demo_env ''session'' (stub_start [Some (OtherError ''bad password'')]) =
     (Inl (OtherError ''bad password''),
      snd (login_body stub_cfg demo_env ''session'' (stub_start [Some (OtherError ''bad password'')])))"
    by (rule with_snd)
  have "fst (login_body stub_cfg demo_env ''session'' (stub_start [Some ReadTimeoutError])) =
          Inl ReadTimeoutError"
    by code_simp
  then have c: "login_body stub_cfg demo_env ''session'' (stub_start [Some ReadTimeoutError]) =
     (Inl ReadTimeoutError, snd (login_body stub_cfg demo_env ''session'' (stub_start [Some ReadTimeoutError])))"
    by (rule with_snd)
  from a login_is_wrapped
         [of stub_cfg demo_env "''session''" "stub_start []" "''logged_in''"
             "snd (login_body stub_cfg demo_env ''session'' (stub_start []))"]
  have a': "login stub_cfg demo_env ''session'' (stub_start []) =
     Some (Inr ''logged_in'', snd (login_body stub_cfg demo_env ''session'' (stub_start [])))"
    by blast
  from b login_is_wrapped
         [of stub_cfg demo_env "''session''" "stub_start [Some (OtherError ''bad password'')]" _
             "snd (login_body stub_cfg demo_env ''session'' (stub_start [Some (OtherError ''bad password'')]))"
             "OtherError ''bad password''"]
  have b': "login stub_cfg demo_env ''session'' (stub_start [Some (OtherError ''bad password'')]) =
     Some (Inl (OtherError ''bad password''),
           snd (login_body stub_cfg demo_env ''session'' (stub_start [Some (OtherError ''bad password'')])))"
    by simp
  from c login_is_wrapped
         [of stub_cfg demo_env "''session''" "stub_start [Some ReadTimeoutError]" _
             "snd (login_body stub_cfg demo_env ''session'' (stub_start [Some ReadTimeoutError]))"
             ReadTimeoutError]
  have c': "login stub_cfg demo_env ''session'' (stub_start [Some ReadTimeoutError]) =
     Some (login_body stub_cfg demo_env ''session''
       ((snd (login_body stub_cfg demo_env ''session'' (stub_start [Some ReadTimeoutError])))
          \<lparr>trace := trace (snd (login_body stub_cfg demo_env ''session'' (stub_start [Some ReadTimeoutError]))) @
             [Log ERROR ''[Downloader]: Timeout error downloading post content. Retry after 1 minute'' [],
              Sleep 60],
           world := sleep demo_env 60
             (world (snd (login_body stub_cfg demo_env ''session'' (stub_start [Some ReadTimeoutError]))))\<rparr>))"
    by simp
  from a a' b b' c c' have old: "login_body stub_cfg demo_env ''session'' (stub_start []) =
     (Inr ''logged_in'', snd (login_body stub_cfg demo_env ''session'' (stub_start []))) \<and>
   login stub_cfg demo_env ''session'' (stub_start []) =
     Some (Inr ''logged_in'', snd (login_body stub_cfg demo_env ''session'' (stub_start []))) \<and>
   login_body stub_cfg demo_env ''session'' (stub_start [Some (OtherError ''bad password'')]) =
     (Inl (OtherError ''bad password''),
      snd (login_body stub_cfg demo_env ''session'' (stub_start [Some (OtherError ''bad password'')]))) \<and>
   login stub_cfg demo_env ''session'' (stub_start [Some (OtherError ''bad password'')]) =
     Some (Inl (OtherError ''bad password''),
           snd (login_body stub_cfg demo_env ''session'' (stub_start [Some (OtherError ''bad password'')]))) \<and>
   login_body stub_cfg demo_env ''session'' (stub_start [Some ReadTimeoutError]) =
     (Inl ReadTimeoutError, snd (login_body stub_cfg demo_env ''session'' (stub_start [Some ReadTimeoutError]))) \<and>
   login stub_cfg demo_env ''session'' (stub_start [Some ReadTimeoutError]) =
     Some (login_body stub_cfg demo_env ''session''
       ((snd (login_body stub_cfg demo_env ''session'' (stub_start [Some ReadTimeoutError])))
          \<lparr>trace := trace (snd (login_body stub_cfg demo_env ''session'' (stub_start [Some ReadTimeoutError]))) @
             [Log ERROR ''[Downloader]: Timeout error downloading post content. Retry after 1 minute'' [],
              Sleep 60],
           world := sleep demo_env 60
             (world (snd (login_body stub_cfg demo_env ''session'' (stub_start [Some ReadTimeoutError]))))\<rparr>))"
    by (intro conjI)
  define d1 where "d1 = snd (login_body stub_cfg demo_env ''session'' (stub_start [Some LoginRequired]))"
  have "fst (login_body stub_cfg demo_env ''session'' (stub_start [Some LoginRequired])) = Inl LoginRequired"
    by code_simp
  then have d: "login_body stub_cfg demo_env ''session'' (stub_start [Some LoginRequired]) = (Inl LoginRequired, d1)"
    unfolding d1_def by (rule with_snd)
  have "map_option fst
          (login stub_cfg demo_env ''relogin''
             (emit (Log ERROR ''[Downloader]: Instagram API login required. Re-authentication...'' [])
                (snd (login_body stub_cfg demo_env ''session'' (stub_start [Some LoginRequired]))))) =
        Some (Inr ''logged_in'')"
    by code_simp
  then obtain d2 where dr:
    "login stub_cfg demo_env ''relogin'' (emit (Log ERROR ''[Downloader]: Instagram API login required. Re-authentication...'' []) d1) = Some (Inr ''logged_in'', d2)"
    unfolding d1_def by (auto dest: outcome_of)
  from login_is_wrapped
         [of stub_cfg demo_env "''session''" "stub_start [Some LoginRequired]" _ d1 LoginRequired
             "''relogin''" "emit (Log ERROR ''[Downloader]: Instagram API login required. Re-authentication...'' []) d1"]
       d dr
  have "login stub_cfg demo_env ''session'' (stub_start [Some LoginRequired]) =
        Some (login_body stub_cfg demo_env ''session'' d2)"
    by simp
  with d dr have new1: "\<exists>s1 x s2.
      login_body stub_cfg demo_env ''session'' (stub_start [Some LoginRequired]) = (Inl LoginRequired, s1) \<and>
      login stub_cfg demo_env ''relogin'' (emit (Log ERROR ''[Downloader]: Instagram API login required. Re-authentication...'' []) s1) = Some (Inr x, s2) \<and>
      login stub_cfg demo_env ''session'' (stub_start [Some LoginRequired]) =
        Some (login_body stub_cfg demo_env ''session'' s2)"
    by blast
  define f1 where "f1 = snd (login_body stub_cfg demo_env ''session''
                              (stub_start [Some LoginRequired, Some (OtherError ''bad password'')]))"
  have "fst (login_body stub_cfg demo_env ''session''
               (stub_start [Some LoginRequired, Some (OtherError ''bad password'')])) = Inl LoginRequired"
    by code_simp
  then have f: "login_body stub_cfg demo_env ''session''
                  (stub_start [Some LoginRequired, Some (OtherError ''bad password'')]) = (Inl LoginRequired, f1)"
    unfolding f1_def by (rule with_snd)
  have "map_option fst
          (login stub_cfg demo_env ''relogin''
             (emit (Log ERROR ''[Downloader]: Instagram API login required. Re-authentication...'' [])
                (snd (login_body stub_cfg demo_env ''session''
                        (stub_start [Some LoginRequired, Some (OtherError ''bad password'')]))))) =
        Some (Inl (OtherError ''bad password''))"
    by code_simp
  then obtain f2 where fr:
    "login stub_cfg demo_env ''relogin'' (emit (Log ERROR ''[Downloader]: Instagram API login required. Re-authentication...'' []) f1) =
       Some (Inl (OtherError ''bad password''), f2)"
    unfolding f1_def by (auto dest: outcome_of)
  from login_is_wrapped
         [of stub_cfg demo_env "''session''" "stub_start [Some LoginRequired, Some (OtherError ''bad password'')]"
             _ f1 LoginRequired "''relogin''" "emit (Log ERROR ''[Downloader]: Instagram API login required. Re-authentication...'' []) f1"]
       f fr
  have "login stub_cfg demo_env ''session'' (stub_start [Some LoginRequired, Some (OtherError ''bad password'')]) =
        Some (Inl (OtherError ''bad password''), f2)"
    by simp
  with f fr have new2: "\<exists>s1 s2.
      login_body stub_cfg demo_env ''session'' (stub_start [Some LoginRequired, Some (OtherError ''bad password'')]) =
        (Inl LoginRequired, s1) \<and>
      login stub_cfg demo_env ''relogin'' (emit (Log ERROR ''[Downloader]: Instagram API login required. Re-authentication...'' []) s1) =
        Some (Inl (OtherError ''bad password''), s2) \<and>
      login stub_cfg demo_env ''session'' (stub_start [Some LoginRequired, Some (OtherError ''bad password'')]) =
        Some (Inl (OtherError ''bad password''), s2)"
    by blast
  show ?thesis
    by (rule conjI [OF old conjI [OF new1 new2]])
qed

text \<open>
  C8, the claim as stated, fails: a read timeout raised inside \<^verbatim>\<open>login\<close> does not reach
  the caller. The wrapper waits a minute and invokes the body a second time, so the
  client's login is called twice and \<^verbatim>\<open>login\<close> returns \<^verbatim>\<open>'logged_in'\<close>.
\<close>

theorem login_retries_counterexample:
  "map_option fst (login stub_cfg demo_env ''session'' (stub_start [Some ReadTimeoutError])) =
     Some (Inr ''logged_in'') \<and>
   map_option (filter is_client_login \<circ> trace \<circ> snd)
     (login stub_cfg demo_env ''session'' (stub_start [Some ReadTimeoutError])) =
     Some [ClientLogin \<lparr>username = CStr ''alice'', password = CStr ''secret'', verification_code = None\<rparr>,
           ClientLogin \<lparr>username = CStr ''alice'', password = CStr ''secret'', verification_code = None\<rparr>] \<and>
   map_option (filter is_sleep \<circ> trace \<circ> snd)
     (login stub_cfg demo_env ''session'' (stub_start [Some ReadTimeoutError])) = Some [Sleep 60]"
  by code_simp

section \<open>Login in renew mode\<close>

text \<open>
  C7, as amended. When the body of \<^verbatim>\<open>login('relogin')\<close> runs through without an
  exception, \<^verbatim>\<open>login\<close> returns \<^verbatim>\<open>'logged_in'\<close> in the state the body left, and what the
  body did after its first log line (and the generation of the two-factor code, when
  enabled) is, in this order: read the settings, set the settings to the empty dict, set
  the uuids to those of the settings that the client held when the call started, log in
  with the credentials, dump the settings to the session file, read the timeline feed.
\<close>

theorem relogin_resets_and_persists:
  assumes "login_body cfg env ''relogin'' s = (Inr v, s')"
  shows "login cfg env ''relogin'' s = Some (Inr ''logged_in'', s') \<and>
         (\<exists>pre args f u.
            uuids (get_settings env (world s)) = Some u \<and>
            getitem cfg ''session-file'' = Inr f \<and>
            (pre = [] \<or>
             (\<exists>seed code. pre =
                [TotpGenerateCode seed,
                 Log INFO ''[Downloader]: Two-factor authentication is enabled. TOTP code: %s'' [AStr code]])) \<and>
            trace s' = trace s @
              [Log INFO ''[Downloader]: Authentication in the Instagram API with type: %s'' [AStr ''relogin'']] @
              pre @
              [Log INFO ''[Downloader]: Relogin to the Instagram API...'' [],
               GetSettings, SetSettings empty_settings, SetUuids u, ClientLogin args, DumpSettings f,
               Log INFO ''[Downloader]: Checking the status of the authentication...'' [],
               GetTimelineFeed,
               Log INFO ''[Downloader]: Authentication in the Instagram API was successful.'' []])"
proof
  from assms have "v = ''logged_in''"
    by (simp add: login_body_value)
  with assms show "login cfg env ''relogin'' s = Some (Inr ''logged_in'', s')"
    by (subst login.simps) (simp add: handler_returns)
next
  from assms show "\<exists>pre args f u.
            uuids (get_settings env (world s)) = Some u \<and>
            getitem cfg ''session-file'' = Inr f \<and>
            (pre = [] \<or>
             (\<exists>seed code. pre =
                [TotpGenerateCode seed,
                 Log INFO ''[Downloader]: Two-factor authentication is enabled. TOTP code: %s'' [AStr code]])) \<and>
            trace s' = trace s @
              [Log INFO ''[Downloader]: Authentication in the Instagram API with type: %s'' [AStr ''relogin'']] @
              pre @
              [Log INFO ''[Downloader]: Relogin to the Instagram API...'' [],
               GetSettings, SetSettings empty_settings, SetUuids u, ClientLogin args, DumpSettings f,
               Log INFO ''[Downloader]: Checking the status of the authentication...'' [],
               GetTimelineFeed,
               Log INFO ''[Downloader]: Authentication in the Instagram API was successful.'' []]"
    by (auto simp: login_body_def make_login_args_def session_file_usable_def dump_session_def
          getitem_uuids_def sequencing_defs
          split: option.split_asm prod.split_asm sum.split_asm if_split_asm)
qed

theorem relogin_resets_and_persists_witness:
  "login_body stub_cfg demo_env ''relogin'' (stub_start []) =
     (Inr ''logged_in'', snd (login_body stub_cfg demo_env ''relogin'' (stub_start []))) \<and>
   login stub_cfg demo_env ''relogin'' (stub_start []) =
     Some (Inr ''logged_in'', snd (login_body stub_cfg demo_env ''relogin'' (stub_start []))) \<and>
   (\<exists>pre args f u.
      uuids (get_settings demo_env (world (stub_start []))) = Some u \<and>
      getitem stub_cfg ''session-file'' = Inr f \<and>
      (pre = [] \<or>
       (\<exists>seed code. pre =
          [TotpGenerateCode seed,
           Log INFO ''[Downloader]: Two-factor authentication is enabled. TOTP code: %s'' [AStr code]])) \<and>
      trace (snd (login_body stub_cfg demo_env ''relogin'' (stub_start []))) = trace (stub_start []) @
        [Log INFO ''[Downloader]: Authentication in the Instagram API with type: %s'' [AStr ''relogin'']] @
        pre @
        [Log INFO ''[Downloader]: Relogin to the Instagram API...'' [],
         GetSettings, SetSettings empty_settings, SetUuids u, ClientLogin args, DumpSettings f,
         Log INFO ''[Downloader]: Checking the status of the authentication...'' [],
         GetTimelineFeed,
         Log INFO ''[Downloader]: Authentication in the Instagram API was successful.'' []])"
proof -
  have "fst (login_body stub_cfg demo_env ''relogin'' (stub_start [])) = Inr ''logged_in''"
    by code_simp
  then have a: "login_body stub_cfg demo_env ''relogin'' (stub_start []) =
     (Inr ''logged_in'', snd (login_body stub_cfg demo_env ''relogin'' (stub_start [])))"
    by (rule with_snd)
  show ?thesis
    by (rule conjI [OF a relogin_resets_and_persists [OF a]])
qed

text \<open>
  C7, the claim as stated, fails in its last part: nothing in \<^verbatim>\<open>login\<close> makes the session
  that is dumped differ from the one in the file before. With a provider that hands out
  the same session for the same device and account, the file holds after the call what it
  held before.
\<close>

theorem relogin_same_session_counterexample:
  "map_option fst (login stub_cfg demo_env ''relogin'' (stub_start [])) = Some (Inr ''logged_in'') \<and>
   session_file (world (stub_start [])) = Some stub_session \<and>
   map_option (session_file \<circ> world \<circ> snd) (login stub_cfg demo_env ''relogin'' (stub_start [])) =
     Some (Some stub_session)"
  by code_simp

section \<open>The single retry\<close>

text \<open>
  C2, as amended. For every method under the wrapper and every \<^verbatim>\<open>self.login\<close>: a first
  invocation that returns is the result; an exception outside the classification
  propagates in the state the invocation left, with no second invocation; after a timeout
  the wrapper logs, waits 60 seconds and gives the outcome of one more invocation with the
  original arguments, a value or an exception, unwrapped. After \<^verbatim>\<open>LoginRequired\<close>,
  \<^verbatim>\<open>ChallengeRequired\<close> or \<^verbatim>\<open>PleaseWaitFewMinutes\<close> the wrapper calls \<^verbatim>\<open>self.login\<close> (in
  the mode and the state of the failure's \<^verbatim>\<open>except\<close> clause): when that call returns, the
  wrapper gives the outcome of one more invocation with the original arguments, made in
  the state in which the call returned; when it raises, the wrapper raises that exception
  and the method is not invoked a second time; when it does not return, the wrapper does
  not return. In no case is the method invoked a third time.
\<close>

theorem handler_single_retry:
  "(method args s = (Inr v, s1) \<longrightarrow> exceptions_handler env L method args s = Some (Inr v, s1)) \<and>
   (method args s = (Inl e, s1) \<and>
    e \<notin> {LoginRequired, ChallengeRequired, PleaseWaitFewMinutes, ReadTimeoutError,
          RequestsConnectionError, ClientRequestTimeout} \<longrightarrow>
      exceptions_handler env L method args s = Some (Inl e, s1)) \<and>
   (method args s = (Inl e, s1) \<and>
    e \<in> {ReadTimeoutError, RequestsConnectionError, ClientRequestTimeout} \<longrightarrow>
      exceptions_handler env L method args s =
        Some (method args
          (time_sleep env 60
            (emit (Log ERROR ''[Downloader]: Timeout error downloading post content. Retry after 1 minute'' []) s1)))) \<and>
   (method args s = (Inl e, s1) \<and>
    e \<in> {LoginRequired, ChallengeRequired, PleaseWaitFewMinutes} \<and>
    mode = (if e = ChallengeRequired then ''session'' else ''relogin'') \<and>
    t = (if e = LoginRequired then
           emit (Log ERROR ''[Downloader]: Instagram API login required. Re-authentication...'' []) s1
         else if e = ChallengeRequired then
           time_sleep env 3600
             (emit (Log ERROR ''[Downloader]: Instagram API requires challenge. Need manually pass in browser. Retry after 1 hour'' []) s1)
         else
           time_sleep env 3600
             (emit (Log ERROR ''[Downloader]: Device or IP address has been restricted. Just wait a one hour and try again'' []) s1)) \<longrightarrow>
      (L mode t = None \<longrightarrow> exceptions_handler env L method args s = None) \<and>
      (\<forall>e' s2. L mode t = Some (Inl e', s2) \<longrightarrow>
         exceptions_handler env L method args s = Some (Inl e', s2)) \<and>
      (\<forall>x s2. L mode t = Some (Inr x, s2) \<longrightarrow>
         exceptions_handler env L method args s = Some (method args s2)))"
proof (intro conjI)
  show "method args s = (Inr v, s1) \<longrightarrow> exceptions_handler env L method args s = Some (Inr v, s1)"
    by (simp add: handler_returns)
  show "method args s = (Inl e, s1) \<and>
    e \<notin> {LoginRequired, ChallengeRequired, PleaseWaitFewMinutes, ReadTimeoutError,
          RequestsConnectionError, ClientRequestTimeout} \<longrightarrow>
      exceptions_handler env L method args s = Some (Inl e, s1)"
    by (simp add: handler_unclassified)
  show "method args s = (Inl e, s1) \<and>
    e \<in> {ReadTimeoutError, RequestsConnectionError, ClientRequestTimeout} \<longrightarrow>
      exceptions_handler env L method args s =
        Some (method args
          (time_sleep env 60
            (emit (Log ERROR ''[Downloader]: Timeout error downloading post content. Retry after 1 minute'' []) s1)))"
    by (blast intro: handler_timeout)
  show "method args s = (Inl e, s1) \<and>
    e \<in> {LoginRequired, ChallengeRequired, PleaseWaitFewMinutes} \<and>
    mode = (if e = ChallengeRequired then ''session'' else ''relogin'') \<and>
    t = (if e = LoginRequired then
           emit (Log ERROR ''[Downloader]: Instagram API login required. Re-authentication...'' []) s1
         else if e = ChallengeRequired then
           time_sleep env 3600
             (emit (Log ERROR ''[Downloader]: Instagram API requires challenge. Need manually pass in browser. Retry after 1 hour'' []) s1)
         else
           time_sleep env 3600
             (emit (Log ERROR ''[Downloader]: Device or IP address has been restricted. Just wait a one hour and try again'' []) s1)) \<longrightarrow>
      (L mode t = None \<longrightarrow> exceptions_handler env L method args s = None) \<and>
      (\<forall>e' s2. L mode t = Some (Inl e', s2) \<longrightarrow>
         exceptions_handler env L method args s = Some (Inl e', s2)) \<and>
      (\<forall>x s2. L mode t = Some (Inr x, s2) \<longrightarrow>
         exceptions_handler env L method args s = Some (method args s2))"
  proof
    assume h: "method args s = (Inl e, s1) \<and>
      e \<in> {LoginRequired, ChallengeRequired, PleaseWaitFewMinutes} \<and>
      mode = (if e = ChallengeRequired then ''session'' else ''relogin'') \<and>
      t = (if e = LoginRequired then
             emit (Log ERROR ''[Downloader]: Instagram API login required. Re-authentication...'' []) s1
           else if e = ChallengeRequired then
             time_sleep env 3600
               (emit (Log ERROR ''[Downloader]: Instagram API requires challenge. Need manually pass in browser. Retry after 1 hour'' []) s1)
           else
             time_sleep env 3600
               (emit (Log ERROR ''[Downloader]: Device or IP address has been restricted. Just wait a one hour and try again'' []) s1))"
    then have "exceptions_handler env L method args s = Option.bind (L mode t) (retry_after method args)"
      using handler_reauth [of "method" "args" s e s1 env L] by simp
    with bind_retry_after [of L mode t "method" "args"]
    show "(L mode t = None \<longrightarrow> exceptions_handler env L method args s = None) \<and>
      (\<forall>e' s2. L mode t = Some (Inl e', s2) \<longrightarrow>
         exceptions_handler env L method args s = Some (Inl e', s2)) \<and>
      (\<forall>x s2. L mode t = Some (Inr x, s2) \<longrightarrow>
         exceptions_handler env L method args s = Some (method args s2))"
      by simp
  qed
qed

theorem handler_single_retry_witness:
  "(\<exists>v s1. get_post_content_body demo_env (''ABC123'', 0) (stub_start []) = (Inr v, s1) \<and>
      exceptions_handler demo_env (login stub_cfg demo_env) (get_post_content_body demo_env)
        (''ABC123'', 0) (stub_start []) = Some (Inr v, s1)) \<and>
   (get_post_content_body demo_env (''ABC123'', 0) (stub_start [Some (OtherError ''server error'')]) =
      (Inl (OtherError ''server error''), after_failure) \<and>
    exceptions_handler demo_env (login stub_cfg demo_env) (get_post_content_body demo_env)
      (''ABC123'', 0) (stub_start [Some (OtherError ''server error'')]) =
      Some (Inl (OtherError ''server error''), after_failure)) \<and>
   (get_post_content_body demo_env (''ABC123'', 0) (stub_start [Some ReadTimeoutError]) =
      (Inl ReadTimeoutError, after_failure) \<and>
    exceptions_handler demo_env (login stub_cfg demo_env) (get_post_content_body demo_env)
      (''ABC123'', 0) (stub_start [Some ReadTimeoutError]) =
      Some (get_post_content_body demo_env (''ABC123'', 0)
              (time_sleep demo_env 60 (emit (Log ERROR ''[Downloader]: Timeout error downloading post content. Retry after 1 minute'' []) after_failure)))) \<and>
   (\<exists>x s2.
      get_post_content_body demo_env (''ABC123'', 0) (stub_start [Some LoginRequired]) =
        (Inl LoginRequired, after_failure) \<and>
      login stub_cfg demo_env ''relogin'' (emit (Log ERROR ''[Downloader]: Instagram API login required. Re-authentication...'' []) after_failure) = Some (Inr x, s2) \<and>
      exceptions_handler demo_env (login stub_cfg demo_env) (get_post_content_body demo_env)
        (''ABC123'', 0) (stub_start [Some LoginRequired]) =
        Some (get_post_content_body demo_env (''ABC123'', 0) s2)) \<and>
   (\<exists>s2.
      get_post_content_body demo_env (''ABC123'', 0)
        (stub_start [Some LoginRequired, Some (OtherError ''bad password'')]) =
        (Inl LoginRequired, after_failure\<lparr>world := stub_initial [Some (OtherError ''bad password'')]\<rparr>) \<and>
      login stub_cfg demo_env ''relogin''
        (emit (Log ERROR ''[Downloader]: Instagram API login required. Re-authentication...'' [])
           (after_failure\<lparr>world := stub_initial [Some (OtherError ''bad password'')]\<rparr>)) =
        Some (Inl (OtherError ''bad password''), s2) \<and>
      exceptions_handler demo_env (login stub_cfg demo_env) (get_post_content_body demo_env)
        (''ABC123'', 0) (stub_start [Some LoginRequired, Some (OtherError ''bad password'')]) =
        Some (Inl (OtherError ''bad password''), s2))"
proof -
  have "isl (fst (get_post_content_body demo_env (''ABC123'', 0) (stub_start []))) = False"
    by code_simp
  then obtain v s1 where b: "get_post_content_body demo_env (''ABC123'', 0) (stub_start []) = (Inr v, s1)"
    by (cases "get_post_content_body demo_env (''ABC123'', 0) (stub_start [])";
        cases "fst (get_post_content_body demo_env (''ABC123'', 0) (stub_start []))") auto
  with handler_single_retry
         [of "get_post_content_body demo_env" "(''ABC123'', 0)" "stub_start []" v s1 demo_env
             "login stub_cfg demo_env"]
  have c1: "\<exists>v s1. get_post_content_body demo_env (''ABC123'', 0) (stub_start []) = (Inr v, s1) \<and>
      exceptions_handler demo_env (login stub_cfg demo_env) (get_post_content_body demo_env)
        (''ABC123'', 0) (stub_start []) = Some (Inr v, s1)"
    by blast
  have b2: "get_post_content_body demo_env (''ABC123'', 0) (stub_start [Some (OtherError ''server error'')]) =
      (Inl (OtherError ''server error''), after_failure)"
    by (simp add: body_fails_on_stub)
  with handler_single_retry
         [of "get_post_content_body demo_env" "(''ABC123'', 0)" "stub_start [Some (OtherError ''server error'')]"
             _ after_failure demo_env "login stub_cfg demo_env" "OtherError ''server error''"]
  have c2: "get_post_content_body demo_env (''ABC123'', 0) (stub_start [Some (OtherError ''server error'')]) =
      (Inl (OtherError ''server error''), after_failure) \<and>
    exceptions_handler demo_env (login stub_cfg demo_env) (get_post_content_body demo_env)
      (''ABC123'', 0) (stub_start [Some (OtherError ''server error'')]) =
      Some (Inl (OtherError ''server error''), after_failure)"
    by simp
  have b3: "get_post_content_body demo_env (''ABC123'', 0) (stub_start [Some ReadTimeoutError]) =
      (Inl ReadTimeoutError, after_failure)"
    by (simp add: body_fails_on_stub)
  with handler_single_retry
         [of "get_post_content_body demo_env" "(''ABC123'', 0)" "stub_start [Some ReadTimeoutError]"
             _ after_failure demo_env "login stub_cfg demo_env" ReadTimeoutError]
  have c3: "get_post_content_body demo_env (''ABC123'', 0) (stub_start [Some ReadTimeoutError]) =
      (Inl ReadTimeoutError, after_failure) \<and>
    exceptions_handler demo_env (login stub_cfg demo_env) (get_post_content_body demo_env)
      (''ABC123'', 0) (stub_start [Some ReadTimeoutError]) =
      Some (get_post_content_body demo_env (''ABC123'', 0)
              (time_sleep demo_env 60 (emit (Log ERROR ''[Downloader]: Timeout error downloading post content. Retry after 1 minute'' []) after_failure)))"
    by simp
  have b4: "get_post_content_body demo_env (''ABC123'', 0) (stub_start [Some LoginRequired]) =
      (Inl LoginRequired, after_failure)"
    by (simp add: body_fails_on_stub)
  have "map_option fst
          (login stub_cfg demo_env ''relogin'' (emit (Log ERROR ''[Downloader]: Instagram API login required. Re-authentication...'' []) after_failure)) =
        Some (Inr ''logged_in'')"
    by code_simp
  then obtain s2 where r4:
    "login stub_cfg demo_env ''relogin'' (emit (Log ERROR ''[Downloader]: Instagram API login required. Re-authentication...'' []) after_failure) =
       Some (Inr ''logged_in'', s2)"
    by (auto dest: outcome_of)
  from handler_single_retry
         [of "get_post_content_body demo_env" "(''ABC123'', 0)" "stub_start [Some LoginRequired]"
             _ after_failure demo_env "login stub_cfg demo_env" LoginRequired "''relogin''"
             "emit (Log ERROR ''[Downloader]: Instagram API login required. Re-authentication...'' []) after_failure"]
       b4 r4
  have "exceptions_handler demo_env (login stub_cfg demo_env) (get_post_content_body demo_env)
        (''ABC123'', 0) (stub_start [Some LoginRequired]) =
        Some (get_post_content_body demo_env (''ABC123'', 0) s2)"
    by simp
  with b4 r4 have c4: "\<exists>x s2.
      get_post_content_body demo_env (''ABC123'', 0) (stub_start [Some LoginRequired]) =
        (Inl LoginRequired, after_failure) \<and>
      login stub_cfg demo_env ''relogin'' (emit (Log ERROR ''[Downloader]: Instagram API login required. Re-authentication...'' []) after_failure) = Some (Inr x, s2) \<and>
      exceptions_handler demo_env (login stub_cfg demo_env) (get_post_content_body demo_env)
        (''ABC123'', 0) (stub_start [Some LoginRequired]) =
        Some (get_post_content_body demo_env (''ABC123'', 0) s2)"
    by blast
  have b5: "get_post_content_body demo_env (''ABC123'', 0)
        (stub_start [Some LoginRequired, Some (OtherError ''bad password'')]) =
        (Inl LoginRequired, after_failure\<lparr>world := stub_initial [Some (OtherError ''bad password'')]\<rparr>)"
    by (simp add: body_fails_then)
  have "map_option fst
          (login stub_cfg demo_env ''relogin''
             (emit (Log ERROR ''[Downloader]: Instagram API login required. Re-authentication...'' [])
                (after_failure\<lparr>world := stub_initial [Some (OtherError ''bad password'')]\<rparr>))) =
        Some (Inl (OtherError ''bad password''))"
    by code_simp
  then obtain s5 where r5:
    "login stub_cfg demo_env ''relogin''
        (emit (Log ERROR ''[Downloader]: Instagram API login required. Re-authentication...'' [])
           (after_failure\<lparr>world := stub_initial [Some (OtherError ''bad password'')]\<rparr>)) =
       Some (Inl (OtherError ''bad password''), s5)"
    by (auto dest: outcome_of)
  from handler_single_retry
         [of "get_post_content_body demo_env" "(''ABC123'', 0)"
             "stub_start [Some LoginRequired, Some (OtherError ''bad password'')]"
             _ "after_failure\<lparr>world := stub_initial [Some (OtherError ''bad password'')]\<rparr>"
             demo_env "login stub_cfg demo_env" LoginRequired "''relogin''"
             "emit (Log ERROR ''[Downloader]: Instagram API login required. Re-authentication...'' [])
                (after_failure\<lparr>world := stub_initial [Some (OtherError ''bad password'')]\<rparr>)"]
       b5 r5
  have "exceptions_handler demo_env (login stub_cfg demo_env) (get_post_content_body demo_env)
        (''ABC123'', 0) (stub_start [Some LoginRequired, Some (OtherError ''bad password'')]) =
        Some (Inl (OtherError ''bad password''), s5)"
    by simp
  with b5 r5 have c5: "\<exists>s2.
      get_post_content_body demo_env (''ABC123'', 0)
        (stub_start [Some LoginRequired, Some (OtherError ''bad password'')]) =
        (Inl LoginRequired, after_failure\<lparr>world := stub_initial [Some (OtherError ''bad password'')]\<rparr>) \<and>
      login stub_cfg demo_env ''relogin''
        (emit (Log ERROR ''[Downloader]: Instagram API login required. Re-authentication...'' [])
           (after_failure\<lparr>world := stub_initial [Some (OtherError ''bad password'')]\<rparr>)) =
        Some (Inl (OtherError ''bad password''), s2) \<and>
      exceptions_handler demo_env (login stub_cfg demo_env) (get_post_content_body demo_env)
        (''ABC123'', 0) (stub_start [Some LoginRequired, Some (OtherError ''bad password'')]) =
        Some (Inl (OtherError ''bad password''), s2)"
    by blast
  show ?thesis
    by (rule conjI [OF c1 conjI [OF c2 conjI [OF c3 conjI [OF c4 c5]]]])
qed

text \<open>
  C2, the claim as stated, fails when the recovery itself raises: the identifier is
  resolved once, \<^verbatim>\<open>LoginRequired\<close> is raised, the login in renew mode raises, and that
  exception leaves the wrapper. The operation is not invoked a second time.
\<close>

theorem failed_relogin_counterexample:
  "map_option fst
     (get_post_content stub_cfg demo_env (''ABC123'', 0)
        (stub_start [Some LoginRequired, Some (OtherError ''bad password'')])) =
     Some (Inl (OtherError ''bad password'')) \<and>
   map_option (filter is_resolution \<circ> trace \<circ> snd)
     (get_post_content stub_cfg demo_env (''ABC123'', 0)
        (stub_start [Some LoginRequired, Some (OtherError ''bad password'')])) =
     Some [MediaPkFromCode ''ABC123'']"
  by code_simp

section \<open>The recovery of each kind of failure\<close>

text \<open>
  C3, as amended. After a first invocation that raised: \<^verbatim>\<open>LoginRequired\<close> logs and calls
  \<^verbatim>\<open>login('relogin')\<close> with no wait; \<^verbatim>\<open>ChallengeRequired\<close> logs, waits 3600 seconds and calls
  \<^verbatim>\<open>login()\<close>, that is the mode \<^verbatim>\<open>session\<close>; \<^verbatim>\<open>PleaseWaitFewMinutes\<close> logs, waits 3600
  seconds and calls \<^verbatim>\<open>login('relogin')\<close>; a timeout logs, waits 60 seconds, calls no login
  and invokes the method once more. After a login that returns the method is invoked once
  more in the state the login left; a login that raises ends the wrapper with its
  exception, and a login that does not return ends nothing.
\<close>

theorem recovery_follows_table:
  assumes "method args s = (Inl e, s1)"
  shows
   "(e = LoginRequired \<longrightarrow>
       exceptions_handler env (login cfg env) method args s =
         Option.bind
           (login cfg env ''relogin''
              (s1\<lparr>trace := trace s1 @
                 [Log ERROR ''[Downloader]: Instagram API login required. Re-authentication...'' []]\<rparr>))
           (retry_after method args)) \<and>
    (e = ChallengeRequired \<longrightarrow>
       exceptions_handler env (login cfg env) method args s =
         Option.bind
           (login cfg env ''session''
              (s1\<lparr>trace := trace s1 @
                 [Log ERROR ''[Downloader]: Instagram API requires challenge. Need manually pass in browser. Retry after 1 hour'' [],
                  Sleep 3600],
                world := sleep env 3600 (world s1)\<rparr>))
           (retry_after method args)) \<and>
    (e = PleaseWaitFewMinutes \<longrightarrow>
       exceptions_handler env (login cfg env) method args s =
         Option.bind
           (login cfg env ''relogin''
              (s1\<lparr>trace := trace s1 @
                 [Log ERROR ''[Downloader]: Device or IP address has been restricted. Just wait a one hour and try again'' [],
                  Sleep 3600],
                world := sleep env 3600 (world s1)\<rparr>))
           (retry_after method args)) \<and>
    (e \<in> {ReadTimeoutError, RequestsConnectionError, ClientRequestTimeout} \<longrightarrow>
       exceptions_handler env (login cfg env) method args s =
         Some (method args
           (s1\<lparr>trace := trace s1 @
              [Log ERROR ''[Downloader]: Timeout error downloading post content. Retry after 1 minute'' [],
               Sleep 60],
             world := sleep env 60 (world s1)\<rparr>))) \<and>
    (\<forall>x s2. retry_after method args (Inr x :: exn + string, s2) = Some (method args s2)) \<and>
    (\<forall>e' s2. retry_after method args (Inl e' :: exn + string, s2) = Some (Inl e', s2))"
  using assms
  by (auto simp: exceptions_handler_def sequencing_defs)

theorem recovery_follows_table_witness:
  "get_post_content_body demo_env (''ABC123'', 0) (stub_start [Some LoginRequired]) =
     (Inl LoginRequired, after_failure) \<and>
   exceptions_handler demo_env (login stub_cfg demo_env) (get_post_content_body demo_env)
     (''ABC123'', 0) (stub_start [Some LoginRequired]) =
     Option.bind
       (login stub_cfg demo_env ''relogin''
          (after_failure\<lparr>trace := trace after_failure @
             [Log ERROR ''[Downloader]: Instagram API login required. Re-authentication...'' []]\<rparr>))
       (retry_after (get_post_content_body demo_env) (''ABC123'', 0)) \<and>
   get_post_content_body demo_env (''ABC123'', 0) (stub_start [Some ChallengeRequired]) =
     (Inl ChallengeRequired, after_failure) \<and>
   exceptions_handler demo_env (login stub_cfg demo_env) (get_post_content_body demo_env)
     (''ABC123'', 0) (stub_start [Some ChallengeRequired]) =
     Option.bind
       (login stub_cfg demo_env ''session''
          (after_failure\<lparr>trace := trace after_failure @
             [Log ERROR ''[Downloader]: Instagram API requires challenge. Need manually pass in browser. Retry after 1 hour'' [],
              Sleep 3600],
            world := sleep demo_env 3600 (world after_failure)\<rparr>))
       (retry_after (get_post_content_body demo_env) (''ABC123'', 0)) \<and>
   get_post_content_body demo_env (''ABC123'', 0) (stub_start [Some PleaseWaitFewMinutes]) =
     (Inl PleaseWaitFewMinutes, after_failure) \<and>
   exceptions_handler demo_env (login stub_cfg demo_env) (get_post_content_body demo_env)
     (''ABC123'', 0) (stub_start [Some PleaseWaitFewMinutes]) =
     Option.bind
       (login stub_cfg demo_env ''relogin''
          (after_failure\<lparr>trace := trace after_failure @
             [Log ERROR ''[Downloader]: Device or IP address has been restricted. Just wait a one hour and try again'' [],
              Sleep 3600],
            world := sleep demo_env 3600 (world after_failure)\<rparr>))
       (retry_after (get_post_content_body demo_env) (''ABC123'', 0)) \<and>
   get_post_content_body demo_env (''ABC123'', 0) (stub_start [Some ClientRequestTimeout]) =
     (Inl ClientRequestTimeout, after_failure) \<and>
   exceptions_handler demo_env (login stub_cfg demo_env) (get_post_content_body demo_env)
     (''ABC123'', 0) (stub_start [Some ClientRequestTimeout]) =
     Some (get_post_content_body demo_env (''ABC123'', 0)
       (after_failure\<lparr>trace := trace after_failure @
          [Log ERROR ''[Downloader]: Timeout error downloading post content. Retry after 1 minute'' [],
           Sleep 60],
         world := sleep demo_env 60 (world after_failure)\<rparr>))"
proof -
  have a: "get_post_content_body demo_env (''ABC123'', 0) (stub_start [Some LoginRequired]) =
     (Inl LoginRequired, after_failure)"
    by (simp add: body_fails_on_stub)
  have b: "get_post_content_body demo_env (''ABC123'', 0) (stub_start [Some ChallengeRequired]) =
     (Inl ChallengeRequired, after_failure)"
    by (simp add: body_fails_on_stub)
  have c: "get_post_content_body demo_env (''ABC123'', 0) (stub_start [Some PleaseWaitFewMinutes]) =
     (Inl PleaseWaitFewMinutes, after_failure)"
    by (simp add: body_fails_on_stub)
  have d: "get_post_content_body demo_env (''ABC123'', 0) (stub_start [Some ClientRequestTimeout]) =
     (Inl ClientRequestTimeout, after_failure)"
    by (simp add: body_fails_on_stub)
  from a b c d
    recovery_follows_table
      [of "get_post_content_body demo_env" "(''ABC123'', 0)" "stub_start [Some LoginRequired]"
          LoginRequired after_failure demo_env stub_cfg]
    recovery_follows_table
      [of "get_post_content_body demo_env" "(''ABC123'', 0)" "stub_start [Some ChallengeRequired]"
          ChallengeRequired after_failure demo_env stub_cfg]
    recovery_follows_table
      [of "get_post_content_body demo_env" "(''ABC123'', 0)" "stub_start [Some PleaseWaitFewMinutes]"
          PleaseWaitFewMinutes after_failure demo_env stub_cfg]
    recovery_follows_table
      [of "get_post_content_body demo_env" "(''ABC123'', 0)" "stub_start [Some ClientRequestTimeout]"
          ClientRequestTimeout after_failure demo_env stub_cfg]
  show ?thesis by simp
qed

text \<open>
  C3, the claim as stated, fails in its last part when the login of the recovery raises:
  after \<^verbatim>\<open>ChallengeRequired\<close> the wrapper waits an hour, the login in session mode raises,
  and the wrapped operation is not retried.
\<close>

theorem failed_challenge_counterexample:
  "map_option fst
     (get_post_content stub_cfg demo_env (''ABC123'', 0)
        (stub_start [Some ChallengeRequired, Some (OtherError ''challenge not passed'')])) =
     Some (Inl (OtherError ''challenge not passed'')) \<and>
   map_option (filter is_sleep \<circ> trace \<circ> snd)
     (get_post_content stub_cfg demo_env (''ABC123'', 0)
        (stub_start [Some ChallengeRequired, Some (OtherError ''challenge not passed'')])) =
     Some [Sleep 3600] \<and>
   map_option (filter is_resolution \<circ> trace \<circ> snd)
     (get_post_content stub_cfg demo_env (''ABC123'', 0)
        (stub_start [Some ChallengeRequired, Some (OtherError ''challenge not passed'')])) =
     Some [MediaPkFromCode ''ABC123'']"
  by code_simp

end
